theory Spec2Isabelle
  imports Main
begin

section \<open>Signed tokens and password hashes (library primitives)\<close>

text \<open>
  The controllers call \<^verbatim>\<open>jwt.sign\<close>, \<^verbatim>\<open>jwt.verify\<close> and bcrypt. They are modelled
  symbolically: a signed token records its claims, the secret it was signed with, its
  issue time and its expiry (both in whole seconds, as jsonwebtoken writes \<^verbatim>\<open>iat\<close> and
  \<^verbatim>\<open>exp\<close>); any other string is \<open>Opaque\<close>. Signing is a function of claims, secret,
  lifetime and the clock second, as HMAC signing is.
\<close>

datatype payload = AccessClaims nat string string | RefreshClaims nat

fun payload_id :: "payload \<Rightarrow> nat" where
  "payload_id (AccessClaims i _ _) = i"
| "payload_id (RefreshClaims i) = i"

datatype jwt = Jwt payload string int int | Opaque string

datatype jwt_error = TokenExpiredError | JsonWebTokenError

text \<open>\<^verbatim>\<open>Date.now()\<close> is in milliseconds; jsonwebtoken works in seconds.\<close>

definition seconds :: "int \<Rightarrow> int" where
  "seconds ms = ms div 1000"

definition jwt_sign :: "payload \<Rightarrow> string \<Rightarrow> int \<Rightarrow> int \<Rightarrow> jwt" where
  "jwt_sign claims secret span ms = Jwt claims secret (seconds ms) (seconds ms + span)"

fun jwt_verify :: "jwt \<Rightarrow> string \<Rightarrow> int \<Rightarrow> jwt_error + payload" where
  "jwt_verify (Opaque _) secret ms = Inl JsonWebTokenError"
| "jwt_verify (Jwt claims key iat ex) secret ms =
     (if key \<noteq> secret then Inl JsonWebTokenError
      else if seconds ms \<ge> ex then Inl TokenExpiredError
      else Inr claims)"

text \<open>A value is falsy in JavaScript when it is undefined or the empty string.\<close>

fun truthy :: "jwt option \<Rightarrow> bool" where
  "truthy None = False"
| "truthy (Some (Opaque s)) = (s \<noteq> [])"
| "truthy (Some (Jwt _ _ _ _)) = True"

text \<open>
  Strings are lists of code units below 256 (\<open>CHR 0xA0\<close> is the no-break space U+00A0).
\<close>

text \<open>
  A password value is the plain text (in a document that has not been through the save
  hook) or a bcrypt hash, which records its salt and the plain text it was made from.
  bcrypt reads a password as a key: the bytes of its UTF-8 encoding followed by a zero
  byte, repeated cyclically, of which the first 72 bytes are used. Two passwords give the
  same hash under one salt exactly when their keys are equal, so \<^verbatim>\<open>bcrypt.compare\<close>
  accepts every candidate whose key is the key of the hashed password.
\<close>

datatype secret = Plain string | Bcrypt nat string

definition utf8 :: "string \<Rightarrow> string" where
  "utf8 s =
     concat (map (\<lambda>c. let n = (of_char c :: nat) in
                       if n < 128 then [c]
                       else [char_of (192 + n div 64), char_of (128 + n mod 64)]) s)"

definition bcryptKey :: "string \<Rightarrow> string" where
  "bcryptKey pw = take 72 (concat (replicate 72 (utf8 pw @ [CHR 0x00])))"

definition bcrypt_hash :: "string \<Rightarrow> nat \<Rightarrow> secret" where
  "bcrypt_hash pw slt = Bcrypt slt pw"

fun bcrypt_compare :: "string \<Rightarrow> secret \<Rightarrow> bool" where
  "bcrypt_compare candidate (Bcrypt _ pw) = (bcryptKey candidate = bcryptKey pw)"
| "bcrypt_compare candidate (Plain _) = False"

section \<open>Configuration, clock and store faults\<close>

text \<open>
  \<open>timespan\<close> is jsonwebtoken's reading of an \<^verbatim>\<open>expiresIn\<close> string, in seconds.
\<close>

record env =
  JWT_SECRET :: string
  JWT_REFRESH_SECRET :: string
  JWT_EXPIRE :: string
  JWT_REFRESH_EXPIRE :: string
  NODE_ENV :: string
  COOKIE_DOMAIN :: "string option"
  timespan :: "string \<Rightarrow> int"

datatype store_op =
    FindOne | FindById | Create | Save
  | CreateToken | FindValidToken | FindOneAndUpdate | RevokeAllForUser | RevokeToken

text \<open>
  What one request reads from outside: the clock, the salt bcrypt draws, and which calls
  to the document store throw.
\<close>

record world =
  now :: int
  salt :: nat
  fails :: "store_op \<Rightarrow> bool"

text \<open>
  Modelled from the spec: \<^verbatim>\<open>utils/AppError.js\<close> is not among the sources. Following
  the spec's error taxonomy, a failure of the session protocol or of the access guard is
  typed and carries its message and its status code: \<open>AppError message statusCode\<close>.
  The other constructors are what a call to the store or to a library throws.
\<close>

datatype error =
    AppError string nat
  | StoreFailure
  | DuplicateKey
  | ValidationError
  | IllegalArguments

section \<open>Documents\<close>

text \<open>
  \<open>oid\<close> is the document's \<^verbatim>\<open>_id\<close>. The password of an admin document is \<open>None\<close>
  when the query did not select it (\<^verbatim>\<open>select: false\<close> in the schema). Dates are
  milliseconds since the epoch.
\<close>

record admin =
  oid :: nat
  name :: string
  email :: string
  password :: "secret option"
  role :: string
  isActive :: bool
  lastLogin :: "int option"

record refreshTokenDoc =
  token :: jwt
  user :: nat
  expiresAt :: int
  isRevoked :: bool

record db =
  admins :: "admin list"
  refreshTokens :: "refreshTokenDoc list"

section \<open>The RefreshToken model (token ledger)\<close>

text \<open>
  \<^verbatim>\<open>findOneAndUpdate(filter, update, {new: true})\<close>: the first document matching the
  filter is updated and returned; none matching gives null and changes nothing.
\<close>

fun findOneAndUpdate ::
  "('a \<Rightarrow> bool) \<Rightarrow> ('a \<Rightarrow> 'a) \<Rightarrow> 'a list \<Rightarrow> 'a option \<times> 'a list" where
  "findOneAndUpdate P f [] = (None, [])"
| "findOneAndUpdate P f (r # rs) =
     (if P r then (Some (f r), f r # rs)
      else (case findOneAndUpdate P f rs of (res, rs') \<Rightarrow> (res, r # rs')))"

definition updateMany :: "('a \<Rightarrow> bool) \<Rightarrow> ('a \<Rightarrow> 'a) \<Rightarrow> 'a list \<Rightarrow> 'a list" where
  "updateMany P f rs = map (\<lambda>r. if P r then f r else r) rs"

text \<open>A JavaScript Date is invalid outside \<open>\<plusminus>8.64e15\<close> ms; NaN is \<open>None\<close>.\<close>

definition newDate :: "int option \<Rightarrow> int option" where
  "newDate t = (case t of None \<Rightarrow> None
     | Some ms \<Rightarrow> if \<bar>ms\<bar> \<le> 8640000000000000 then Some ms else None)"

definition createToken ::
  "world \<Rightarrow> nat \<Rightarrow> jwt \<Rightarrow> int option \<Rightarrow> db \<Rightarrow> error + (refreshTokenDoc \<times> db)" where
  "createToken w userId tok expiresIn d =
     (let expires = newDate (map_option (\<lambda>n. now w + n * 1000) expiresIn) in
      case expires of
        None \<Rightarrow> Inl ValidationError
      | Some ex \<Rightarrow>
          if \<not> truthy (Some tok) then Inl ValidationError
          else if fails w CreateToken then Inl StoreFailure
          else if tok \<in> set (map token (refreshTokens d)) then Inl DuplicateKey
          else (let doc = \<lparr>token = tok, user = userId, expiresAt = ex, isRevoked = False\<rparr>
                in Inr (doc, d\<lparr>refreshTokens := refreshTokens d @ [doc]\<rparr>)))"

definition findById :: "db \<Rightarrow> nat \<Rightarrow> admin option" where
  "findById d i = map_option (\<lambda>a. a\<lparr>password := None\<rparr>) (find (\<lambda>a. oid a = i) (admins d))"

definition findValidToken ::
  "world \<Rightarrow> jwt \<Rightarrow> db \<Rightarrow> error + (refreshTokenDoc \<times> admin option) option" where
  "findValidToken w tok d =
     (if fails w FindValidToken then Inl StoreFailure
      else Inr (map_option (\<lambda>doc. (doc, findById d (user doc)))
             (find (\<lambda>r. token r = tok \<and> isRevoked r = False \<and> expiresAt r > now w)
                (refreshTokens d))))"

definition revokeAllForUser :: "world \<Rightarrow> nat \<Rightarrow> db \<Rightarrow> error + db" where
  "revokeAllForUser w userId d =
     (if fails w RevokeAllForUser then Inl StoreFailure
      else Inr (d\<lparr>refreshTokens :=
             updateMany (\<lambda>r. user r = userId \<and> isRevoked r = False)
               (\<lambda>r. r\<lparr>isRevoked := True\<rparr>) (refreshTokens d)\<rparr>))"

definition revokeToken :: "world \<Rightarrow> jwt \<Rightarrow> db \<Rightarrow> error + (refreshTokenDoc option \<times> db)" where
  "revokeToken w tok d =
     (if fails w RevokeToken then Inl StoreFailure
      else (case findOneAndUpdate (\<lambda>r. token r = tok) (\<lambda>r. r\<lparr>isRevoked := True\<rparr>)
                   (refreshTokens d) of
              (res, rs) \<Rightarrow> Inr (res, d\<lparr>refreshTokens := rs\<rparr>)))"

text \<open>
  The conditional update of the refresh handler:
  \<^verbatim>\<open>findOneAndUpdate({token, isRevoked: false}, {isRevoked: true}, {new: true})\<close>.
\<close>

definition consumeToken :: "world \<Rightarrow> jwt \<Rightarrow> db \<Rightarrow> error + (refreshTokenDoc option \<times> db)" where
  "consumeToken w tok d =
     (if fails w FindOneAndUpdate then Inl StoreFailure
      else (case findOneAndUpdate (\<lambda>r. token r = tok \<and> isRevoked r = False)
                   (\<lambda>r. r\<lparr>isRevoked := True\<rparr>) (refreshTokens d) of
              (res, rs) \<Rightarrow> Inr (res, d\<lparr>refreshTokens := rs\<rparr>)))"

section \<open>The Admin model: token minting\<close>

text \<open>
  \<^verbatim>\<open>parseInt(s)\<close> with no radix: leading white space, an optional sign, then hexadecimal
  digits after a \<^verbatim>\<open>0x\<close> prefix or else decimal digits; NaN (here \<open>None\<close>) when there is
  no digit.
\<close>

definition isWhiteSpace :: "char \<Rightarrow> bool" where
  "isWhiteSpace c =
     (c \<in> set [CHR '' '', CHR 0x09, CHR 0x0A, CHR 0x0B, CHR 0x0C, CHR 0x0D, CHR 0xA0])"

definition digitValue :: "nat \<Rightarrow> char \<Rightarrow> nat option" where
  "digitValue radix c =
     (let n = (of_char c :: nat);
          v = (if 48 \<le> n \<and> n \<le> 57 then Some (n - 48)
               else if 97 \<le> n \<and> n \<le> 122 then Some (n - 87)
               else if 65 \<le> n \<and> n \<le> 90 then Some (n - 55)
               else None)
      in case v of None \<Rightarrow> None | Some k \<Rightarrow> if k < radix then Some k else None)"

definition digitsValue :: "nat \<Rightarrow> string \<Rightarrow> int option" where
  "digitsValue radix s =
     (let ds = takeWhile (\<lambda>c. digitValue radix c \<noteq> None) s in
      if ds = [] then None
      else Some (foldl (\<lambda>acc c. acc * int radix + int (the (digitValue radix c))) 0 ds))"

definition parseInt :: "string \<Rightarrow> int option" where
  "parseInt s =
     (let s1 = dropWhile isWhiteSpace s;
          sgn = (if take 1 s1 = ''-'' then - 1 else (1::int));
          s2 = (if take 1 s1 = ''-'' \<or> take 1 s1 = ''+'' then drop 1 s1 else s1);
          hex = (take 2 s2 = ''0x'' \<or> take 2 s2 = ''0X'')
      in map_option (\<lambda>n. sgn * n)
           (if hex then digitsValue 16 (drop 2 s2) else digitsValue 10 s2))"

definition generateAccessToken :: "env \<Rightarrow> world \<Rightarrow> admin \<Rightarrow> jwt" where
  "generateAccessToken e w a =
     jwt_sign (AccessClaims (oid a) (email a) (role a)) (JWT_SECRET e)
       (timespan e (JWT_EXPIRE e)) (now w)"

text \<open>The block "Parse expiresIn to get seconds" of \<^verbatim>\<open>generateRefreshToken\<close>.\<close>

definition expiresInSeconds :: "string \<Rightarrow> int option" where
  "expiresInSeconds expiresIn =
     (if CHR ''d'' \<in> set expiresIn then map_option (\<lambda>n. n * 24 * 60 * 60) (parseInt expiresIn)
      else if CHR ''h'' \<in> set expiresIn then map_option (\<lambda>n. n * 60 * 60) (parseInt expiresIn)
      else if CHR ''m'' \<in> set expiresIn then map_option (\<lambda>n. n * 60) (parseInt expiresIn)
      else parseInt expiresIn)"

definition signRefreshToken :: "env \<Rightarrow> world \<Rightarrow> admin \<Rightarrow> jwt" where
  "signRefreshToken e w a =
     jwt_sign (RefreshClaims (oid a)) (JWT_REFRESH_SECRET e)
       (timespan e (JWT_REFRESH_EXPIRE e)) (now w)"

definition generateRefreshToken :: "env \<Rightarrow> world \<Rightarrow> admin \<Rightarrow> db \<Rightarrow> error + (jwt \<times> db)" where
  "generateRefreshToken e w a d =
     (let refreshToken = signRefreshToken e w a in
      case createToken w (oid a) refreshToken (expiresInSeconds (JWT_REFRESH_EXPIRE e)) d of
        Inl err \<Rightarrow> Inl err
      | Inr (_, d') \<Rightarrow> Inr (refreshToken, d'))"

section \<open>Responses and cookies\<close>

record cookieOptions =
  httpOnly :: bool
  secure :: bool
  sameSite :: string
  maxAge :: "int option"
  path :: string
  domain :: "string option"

datatype cookie = SetCookie string jwt cookieOptions | ClearCookie string cookieOptions

record response =
  status :: nat
  success :: bool
  message :: string
  data_admin :: "admin option"
  data_accessToken :: "jwt option"
  cookies :: "cookie list"

text \<open>
  Modelled from the spec: \<^verbatim>\<open>utils/asyncHandler.js\<close> is not among the sources. Following
  the spec's propagation policy (failures are surfaced to the boundary layer, none is
  silently swallowed), an error thrown inside a handler is passed to \<^verbatim>\<open>next\<close>, as the
  errors the handler passes itself. A handler either ends so or responds.
\<close>

datatype outcome = Next error | Responded response

definition setRefreshTokenCookie :: "env \<Rightarrow> jwt \<Rightarrow> cookie" where
  "setRefreshTokenCookie e refreshToken =
     (let isProd = (NODE_ENV e = ''production'') in
      SetCookie ''refreshToken'' refreshToken
        \<lparr>httpOnly = True, secure = isProd,
         sameSite = (if isProd then ''none'' else ''lax''),
         maxAge = Some (7 * 24 * 60 * 60 * 1000), path = ''/'',
         domain = (case COOKIE_DOMAIN e of None \<Rightarrow> None
                   | Some dm \<Rightarrow> if dm = [] then None else Some dm)\<rparr>)"

definition clearRefreshTokenCookie :: "env \<Rightarrow> cookie" where
  "clearRefreshTokenCookie e =
     (let isProd = (NODE_ENV e = ''production'') in
      ClearCookie ''refreshToken''
        \<lparr>httpOnly = True, secure = isProd,
         sameSite = (if isProd then ''none'' else ''lax''),
         maxAge = None, path = ''/'',
         domain = (case COOKIE_DOMAIN e of None \<Rightarrow> None
                   | Some dm \<Rightarrow> if dm = [] then None else Some dm)\<rparr>)"

section \<open>The refresh route: verifyRefreshToken, then refreshToken\<close>

text \<open>What \<^verbatim>\<open>verifyRefreshToken\<close> attaches to the request.\<close>

record refreshReq =
  req_admin :: admin
  req_refreshToken :: "jwt option"
  req_tokenDoc :: "refreshTokenDoc option"

definition invalidOrExpired :: error where
  "invalidOrExpired = AppError ''Invalid or expired refresh token'' 401"

definition invalidRefreshToken :: error where
  "invalidRefreshToken = AppError ''Invalid refresh token'' 401"

definition refreshTokenRequired :: error where
  "refreshTokenRequired = AppError ''Refresh token is required'' 400"

definition reuseDetected :: error where
  "reuseDetected =
     AppError ''Refresh token reuse detected. All sessions revoked. Please log in again.'' 401"

definition verifyRefreshToken :: "world \<Rightarrow> jwt option \<Rightarrow> db \<Rightarrow> error + refreshReq" where
  "verifyRefreshToken w cookie d =
     (if \<not> truthy cookie then Inl refreshTokenRequired
      else case findValidToken w (the cookie) d of
             Inl _ \<Rightarrow> Inl invalidRefreshToken
           | Inr None \<Rightarrow> Inl invalidOrExpired
           | Inr (Some (tokenDoc, None)) \<Rightarrow> Inl invalidRefreshToken
           | Inr (Some (tokenDoc, Some adm)) \<Rightarrow>
               Inr \<lparr>req_admin = adm, req_refreshToken = cookie, req_tokenDoc = Some tokenDoc\<rparr>)"

text \<open>
  Errors of \<^verbatim>\<open>revokeAllForUser\<close> are caught and logged: the ledger is then left as it was.
\<close>

definition revokeAllLogged :: "world \<Rightarrow> nat \<Rightarrow> db \<Rightarrow> db" where
  "revokeAllLogged w userId d = (case revokeAllForUser w userId d of Inl _ \<Rightarrow> d | Inr d' \<Rightarrow> d')"

text \<open>The tail of the handler, from \<^verbatim>\<open>admin.generateRefreshToken()\<close> on.\<close>

definition issueTokens :: "env \<Rightarrow> world \<Rightarrow> admin \<Rightarrow> db \<Rightarrow> outcome \<times> db" where
  "issueTokens e w adm d =
     (case generateRefreshToken e w adm d of
        Inl err \<Rightarrow> (Next err, d)
      | Inr (newRefreshToken, d') \<Rightarrow>
          (Responded \<lparr>status = 200, success = True,
             message = ''Token refreshed successfully'',
             data_admin = None,
             data_accessToken = Some (generateAccessToken e w adm),
             cookies = [setRefreshTokenCookie e newRefreshToken]\<rparr>, d'))"

definition refreshToken :: "env \<Rightarrow> world \<Rightarrow> refreshReq \<Rightarrow> db \<Rightarrow> outcome \<times> db" where
  "refreshToken e w req d =
     (let adm = req_admin req; oldRefreshToken = req_refreshToken req;
          tokenDoc = req_tokenDoc req in
      if tokenDoc \<noteq> None \<and> isRevoked (the tokenDoc)
      then (Next reuseDetected, revokeAllLogged w (oid adm) d)
      else if tokenDoc \<noteq> None \<and> truthy (Some (token (the tokenDoc)))
      then (case consumeToken w (token (the tokenDoc)) d of
              Inl _ \<Rightarrow> issueTokens e w adm d
            | Inr (None, d') \<Rightarrow> (Next reuseDetected, revokeAllLogged w (oid adm) d')
            | Inr (Some consumed, d') \<Rightarrow> issueTokens e w adm d')
      else if truthy oldRefreshToken
      then (case revokeToken w (the oldRefreshToken) d of
              Inl _ \<Rightarrow> issueTokens e w adm d
            | Inr (_, d') \<Rightarrow> issueTokens e w adm d')
      else issueTokens e w adm d)"

text \<open>\<^verbatim>\<open>router.post('/refresh', verifyRefreshToken, refreshToken)\<close>\<close>

definition refreshRoute :: "env \<Rightarrow> world \<Rightarrow> jwt option \<Rightarrow> db \<Rightarrow> outcome \<times> db" where
  "refreshRoute e w cookie d =
     (case verifyRefreshToken w cookie d of
        Inl err \<Rightarrow> (Next err, d)
      | Inr req \<Rightarrow> refreshToken e w req d)"

section \<open>logout\<close>

definition logout :: "env \<Rightarrow> world \<Rightarrow> jwt option \<Rightarrow> db \<Rightarrow> outcome \<times> db" where
  "logout e w cookie d =
     (let respond = Responded \<lparr>status = 200, success = True,
                      message = ''Logged out successfully'',
                      data_admin = None, data_accessToken = None,
                      cookies = [clearRefreshTokenCookie e]\<rparr> in
      if truthy cookie
      then (case revokeToken w (the cookie) d of
              Inl err \<Rightarrow> (Next err, d)
            | Inr (_, d') \<Rightarrow> (respond, d'))
      else (respond, d))"

section \<open>The Admin model: schema, lookup, create, save\<close>

text \<open>
  \<^verbatim>\<open>toLowerCase\<close> on code units below 256: the letters A-Z and the accented capitals
  U+00C0 to U+00DE (but not the multiplication sign U+00D7) move up by 32.
\<close>

definition toLowerCase :: "string \<Rightarrow> string" where
  "toLowerCase s =
     map (\<lambda>c. let n = (of_char c :: nat) in
               if (65 \<le> n \<and> n \<le> 90) \<or> (192 \<le> n \<and> n \<le> 222 \<and> n \<noteq> 215)
               then char_of (n + 32) else c) s"

definition trim :: "string \<Rightarrow> string" where
  "trim s = rev (dropWhile isWhiteSpace (rev (dropWhile isWhiteSpace s)))"

text \<open>
  The schema's pattern for emails,
  \<^verbatim>\<open>/^\w+([\.-]?\w+)*@\w+([\.-]?\w+)*(\.\w{2,3})+$/\<close>.
  \<open>dotted\<close> is the language of \<^verbatim>\<open>\w+([\.-]?\w+)*\<close>: word characters with single dots
  or hyphens strictly inside. The domain is such a string followed by a dot and two or
  three word characters.
\<close>

definition wordChar :: "char \<Rightarrow> bool" where
  "wordChar c =
     (let n = (of_char c :: nat) in
      (48 \<le> n \<and> n \<le> 57) \<or> (65 \<le> n \<and> n \<le> 90) \<or> (97 \<le> n \<and> n \<le> 122) \<or> n = 95)"

definition separator :: "char \<Rightarrow> bool" where
  "separator c = (c = CHR ''.'' \<or> c = CHR ''-'')"

fun noAdjacentSeparators :: "string \<Rightarrow> bool" where
  "noAdjacentSeparators (a # b # rest) =
     (\<not> (separator a \<and> separator b) \<and> noAdjacentSeparators (b # rest))"
| "noAdjacentSeparators _ = True"

definition dotted :: "string \<Rightarrow> bool" where
  "dotted s =
     (s \<noteq> [] \<and> wordChar (hd s) \<and> wordChar (last s)
      \<and> list_all (\<lambda>c. wordChar c \<or> separator c) s \<and> noAdjacentSeparators s)"

definition emailMatch :: "string \<Rightarrow> bool" where
  "emailMatch s =
     (let local = takeWhile (\<lambda>c. c \<noteq> CHR ''@'') s;
          rest = dropWhile (\<lambda>c. c \<noteq> CHR ''@'') s;
          dom = drop 1 rest;
          tld = rev (takeWhile (\<lambda>c. c \<noteq> CHR ''.'') (rev dom));
          host = rev (drop 1 (dropWhile (\<lambda>c. c \<noteq> CHR ''.'') (rev dom)))
      in rest \<noteq> [] \<and> dotted local \<and> CHR ''.'' \<in> set dom \<and> dotted host
         \<and> (length tld = 2 \<or> length tld = 3) \<and> list_all wordChar tld)"

text \<open>The validators of \<^verbatim>\<open>adminSchema\<close>, on a document whose setters have run.\<close>

definition validateAdmin :: "string \<Rightarrow> string \<Rightarrow> string \<Rightarrow> string \<Rightarrow> bool" where
  "validateAdmin nm em pw rl =
     (nm \<noteq> [] \<and> 2 \<le> length nm \<and> length nm \<le> 50
      \<and> em \<noteq> [] \<and> emailMatch em
      \<and> pw \<noteq> [] \<and> 6 \<le> length pw
      \<and> (rl = ''admin'' \<or> rl = ''super-admin''))"

text \<open>
  \<^verbatim>\<open>Admin.findOne({ email })\<close>; the schema's \<^verbatim>\<open>lowercase\<close> setter is applied to the
  filter value. The password is returned only with \<^verbatim>\<open>.select('+password')\<close>.
\<close>

definition findOne :: "world \<Rightarrow> bool \<Rightarrow> string \<Rightarrow> db \<Rightarrow> error + admin option" where
  "findOne w withPassword em d =
     (if fails w FindOne then Inl StoreFailure
      else Inr (map_option (\<lambda>a. if withPassword then a else a\<lparr>password := None\<rparr>)
             (find (\<lambda>a. email a = toLowerCase em) (admins d))))"

definition findAdminById :: "world \<Rightarrow> nat \<Rightarrow> db \<Rightarrow> error + admin option" where
  "findAdminById w i d = (if fails w FindById then Inl StoreFailure else Inr (findById d i))"

text \<open>A new document gets an identifier no stored document has.\<close>

definition newObjectId :: "db \<Rightarrow> nat" where
  "newObjectId d = Suc (foldr max (map oid (admins d)) 0)"

text \<open>
  \<^verbatim>\<open>adminSchema.pre('save')\<close>: the password is hashed when it was modified.
\<close>

definition preSave :: "world \<Rightarrow> bool \<Rightarrow> admin \<Rightarrow> admin" where
  "preSave w passwordModified a =
     (if \<not> passwordModified then a
      else (case password a of
              Some (Plain pw) \<Rightarrow> a\<lparr>password := Some (bcrypt_hash pw (salt w))\<rparr>
            | _ \<Rightarrow> a))"

record registerBody =
  body_name :: string
  body_email :: string
  body_password :: string
  body_role :: "string option"

definition createAdmin ::
  "world \<Rightarrow> string \<Rightarrow> string \<Rightarrow> string \<Rightarrow> string \<Rightarrow> db \<Rightarrow> error + (admin \<times> db)" where
  "createAdmin w nm em pw rl d =
     (let doc = \<lparr>oid = newObjectId d, name = trim nm, email = toLowerCase em,
                 password = Some (Plain pw), role = rl, isActive = True, lastLogin = None\<rparr>
      in if \<not> validateAdmin (name doc) (email doc) pw rl then Inl ValidationError
         else (let saved = preSave w True doc in
               if fails w Create then Inl StoreFailure
               else if email saved \<in> set (map email (admins d)) then Inl DuplicateKey
               else Inr (saved, d\<lparr>admins := admins d @ [saved]\<rparr>)))"

text \<open>
  \<^verbatim>\<open>admin.lastLogin = new Date(); await admin.save()\<close>: only \<^verbatim>\<open>lastLogin\<close> was
  modified, so the hook leaves the password alone and the stored document gets the new
  \<^verbatim>\<open>lastLogin\<close>.
\<close>

definition saveLastLogin :: "world \<Rightarrow> admin \<Rightarrow> db \<Rightarrow> error + (admin \<times> db)" where
  "saveLastLogin w a d =
     (let a' = preSave w False (a\<lparr>lastLogin := Some (now w)\<rparr>) in
      if fails w Save then Inl StoreFailure
      else Inr (a', d\<lparr>admins := updateMany (\<lambda>x. oid x = oid a')
                                   (\<lambda>x. x\<lparr>lastLogin := lastLogin a'\<rparr>) (admins d)\<rparr>))"

fun comparePassword :: "admin \<Rightarrow> string \<Rightarrow> error + bool" where
  "comparePassword a candidatePassword =
     (case password a of
        None \<Rightarrow> Inl IllegalArguments
      | Some h \<Rightarrow> Inr (bcrypt_compare candidatePassword h))"

section \<open>register and login\<close>

definition register :: "env \<Rightarrow> world \<Rightarrow> registerBody \<Rightarrow> db \<Rightarrow> outcome \<times> db" where
  "register e w body d =
     (let rl = (case body_role body of None \<Rightarrow> ''admin'' | Some r \<Rightarrow> r) in
      case findOne w False (body_email body) d of
        Inl err \<Rightarrow> (Next err, d)
      | Inr (Some existingAdmin) \<Rightarrow>
          (Next (AppError ''Admin with this email already exists'' 400), d)
      | Inr None \<Rightarrow>
          (case createAdmin w (body_name body) (body_email body) (body_password body) rl d of
             Inl err \<Rightarrow> (Next err, d)
           | Inr (adm, d1) \<Rightarrow>
               (let accessToken = generateAccessToken e w adm in
                case generateRefreshToken e w adm d1 of
                  Inl err \<Rightarrow> (Next err, d1)
                | Inr (rt, d2) \<Rightarrow>
                    (Responded \<lparr>status = 201, success = True,
                       message = ''Admin registered successfully'',
                       data_admin = Some adm,
                       data_accessToken = Some accessToken,
                       cookies = [setRefreshTokenCookie e rt]\<rparr>, d2))))"

definition login :: "env \<Rightarrow> world \<Rightarrow> string \<Rightarrow> string \<Rightarrow> db \<Rightarrow> outcome \<times> db" where
  "login e w em pw d =
     (if em = [] \<or> pw = [] then (Next (AppError ''Email and password are required'' 400), d)
      else case findOne w True em d of
        Inl err \<Rightarrow> (Next err, d)
      | Inr None \<Rightarrow> (Next (AppError ''Invalid credentials'' 401), d)
      | Inr (Some adm) \<Rightarrow>
          (case comparePassword adm pw of
             Inl err \<Rightarrow> (Next err, d)
           | Inr isPasswordCorrect \<Rightarrow>
               if \<not> isPasswordCorrect then (Next (AppError ''Invalid credentials'' 401), d)
               else if \<not> isActive adm then (Next (AppError ''Account is deactivated'' 401), d)
               else (case saveLastLogin w adm d of
                       Inl err \<Rightarrow> (Next err, d)
                     | Inr (adm1, d1) \<Rightarrow>
                         (let accessToken = generateAccessToken e w adm1 in
                          case generateRefreshToken e w adm1 d1 of
                            Inl err \<Rightarrow> (Next err, d1)
                          | Inr (rt, d2) \<Rightarrow>
                              (Responded \<lparr>status = 200, success = True,
                                 message = ''Login successful'',
                                 data_admin = Some (adm1\<lparr>password := None\<rparr>),
                                 data_accessToken = Some accessToken,
                                 cookies = [setRefreshTokenCookie e rt]\<rparr>, d2)))))"

section \<open>protect\<close>

text \<open>
  The \<^verbatim>\<open>Authorization\<close> header is given as its pieces between single spaces (what
  \<^verbatim>\<open>split(' ')\<close> returns); a piece that is not a signed token is \<open>Opaque\<close> text.
  The header starts with \<^verbatim>\<open>'bearer '\<close>, case-insensitively, when its first piece is that
  word and a second piece follows.
\<close>

record authReq =
  authorization :: "jwt list option"
  cookie_accessToken :: "jwt option"

definition bearerToken :: "jwt list option \<Rightarrow> jwt option" where
  "bearerToken authHeader =
     (case authHeader of
        Some (Opaque scheme # tok # _) \<Rightarrow>
          if toLowerCase scheme = ''bearer'' then Some tok else None
      | _ \<Rightarrow> None)"

definition protect :: "env \<Rightarrow> world \<Rightarrow> authReq \<Rightarrow> db \<Rightarrow> error + admin" where
  "protect e w req d =
     (let tok0 = bearerToken (authorization req);
          tok = (if \<not> truthy tok0 \<and> truthy (cookie_accessToken req)
                 then cookie_accessToken req else tok0)
      in if \<not> truthy tok then Inl (AppError ''Not authorized to access this route'' 401)
         else case jwt_verify (the tok) (JWT_SECRET e) (now w) of
                Inl TokenExpiredError \<Rightarrow> Inl (AppError ''Token expired'' 401)
              | Inl JsonWebTokenError \<Rightarrow> Inl (AppError ''Token is not valid'' 401)
              | Inr decoded \<Rightarrow>
                  (case findAdminById w (payload_id decoded) d of
                     Inl _ \<Rightarrow> Inl (AppError ''Token is not valid'' 401)
                   | Inr None \<Rightarrow> Inl (AppError ''Token is not valid'' 401)
                   | Inr (Some adm) \<Rightarrow>
                       if \<not> isActive adm then Inl (AppError ''Account is deactivated'' 401)
                       else Inr adm))"

section \<open>Concurrent refresh calls\<close>

text \<open>
  A request handler runs by itself between two \<^verbatim>\<open>await\<close>s, and every \<^verbatim>\<open>await\<close> of the
  refresh route is one call to the store. A refresh request in flight is therefore at
  one of these points: not yet looked up (\<open>Start\<close>, holding the cookie); looked up and
  about to consume (\<open>Verified\<close>, holding what \<^verbatim>\<open>verifyRefreshToken\<close> attached); consumed
  and about to mint (\<open>Minting\<close>); lost the conditional update and about to revoke all
  (\<open>Revoking\<close>); or finished (\<open>Done\<close>). One step performs the next store call of the
  request and the handler code up to the following one.
\<close>

datatype proc =
    Start "jwt option"
  | Verified refreshReq
  | Minting admin
  | Revoking admin
  | Done outcome

definition refreshStep :: "env \<Rightarrow> world \<Rightarrow> proc \<Rightarrow> db \<Rightarrow> proc \<times> db" where
  "refreshStep e w p d =
     (case p of
        Start cookie \<Rightarrow>
          (case verifyRefreshToken w cookie d of
             Inl err \<Rightarrow> (Done (Next err), d)
           | Inr req \<Rightarrow> (Verified req, d))
      | Verified req \<Rightarrow>
          (let adm = req_admin req; oldRefreshToken = req_refreshToken req;
               tokenDoc = req_tokenDoc req in
           if tokenDoc \<noteq> None \<and> isRevoked (the tokenDoc)
           then (Done (Next reuseDetected), revokeAllLogged w (oid adm) d)
           else if tokenDoc \<noteq> None \<and> truthy (Some (token (the tokenDoc)))
           then (case consumeToken w (token (the tokenDoc)) d of
                   Inl _ \<Rightarrow> (Minting adm, d)
                 | Inr (None, d') \<Rightarrow> (Revoking adm, d')
                 | Inr (Some consumed, d') \<Rightarrow> (Minting adm, d'))
           else if truthy oldRefreshToken
           then (case revokeToken w (the oldRefreshToken) d of
                   Inl _ \<Rightarrow> (Minting adm, d)
                 | Inr (_, d') \<Rightarrow> (Minting adm, d'))
           else (case issueTokens e w adm d of (out, d') \<Rightarrow> (Done out, d')))
      | Minting adm \<Rightarrow> (case issueTokens e w adm d of (out, d') \<Rightarrow> (Done out, d'))
      | Revoking adm \<Rightarrow> (Done (Next reuseDetected), revokeAllLogged w (oid adm) d)
      | Done out \<Rightarrow> (Done out, d))"




text \<open>A ledger row is active when it is unrevoked and unexpired.\<close>

definition active :: "int \<Rightarrow> refreshTokenDoc \<Rightarrow> bool" where
  "active t r = (\<not> isRevoked r \<and> t < expiresAt r)"

section \<open>Two refresh calls with the same cookie: setting and invariant\<close>



definition attached :: "refreshTokenDoc \<Rightarrow> admin \<Rightarrow> refreshReq" where
  "attached r a =
     \<lparr>req_admin = a\<lparr>password := None\<rparr>, req_refreshToken = Some (token r),
      req_tokenDoc = Some r\<rparr>"


definition waiting :: "refreshTokenDoc \<Rightarrow> admin \<Rightarrow> proc \<Rightarrow> bool" where
  "waiting r a p = (p = Start (Some (token r)) \<or> p = Verified (attached r a))"








section \<open>Concrete configurations used to exercise the model\<close>

definition env0 :: env where
  "env0 = \<lparr>JWT_SECRET = ''s'', JWT_REFRESH_SECRET = ''r'', JWT_EXPIRE = ''15m'',
            JWT_REFRESH_EXPIRE = ''7d'', NODE_ENV = ''development'', COOKIE_DOMAIN = None,
            timespan = (\<lambda>s. if s = ''15m'' then 900 else 604800)\<rparr>"

text \<open>The world at clock \<open>t\<close> (ms) in which exactly the store calls in \<open>ops\<close> throw.\<close>

definition world0 :: "int \<Rightarrow> store_op list \<Rightarrow> world" where
  "world0 t ops = \<lparr>now = t, salt = 1, fails = (\<lambda>x. x \<in> set ops)\<rparr>"

definition admin0 :: admin where
  "admin0 = \<lparr>oid = 1, name = ''Al'', email = ''a@x.com'',
              password = Some (Bcrypt 1 ''Secr3t!''), role = ''admin'',
              isActive = True, lastLogin = None\<rparr>"

definition db0 :: db where
  "db0 = \<lparr>admins = [admin0], refreshTokens = []\<rparr>"

text \<open>Two refresh tokens of the same account, minted at seconds 0 and 2.\<close>

definition tokA :: jwt where
  "tokA = Jwt (RefreshClaims 1) ''r'' 0 604800"

definition tokB :: jwt where
  "tokB = Jwt (RefreshClaims 1) ''r'' 2 604802"

definition rowA :: refreshTokenDoc where
  "rowA = \<lparr>token = tokA, user = 1, expiresAt = 604800000, isRevoked = False\<rparr>"

definition rowB :: refreshTokenDoc where
  "rowB = \<lparr>token = tokB, user = 1, expiresAt = 604802000, isRevoked = False\<rparr>"

definition db_active :: db where
  "db_active = \<lparr>admins = [admin0], refreshTokens = [rowA, rowB]\<rparr>"

text \<open>The same ledger after \<open>tokA\<close> was consumed by a rotation.\<close>

definition db_consumed :: db where
  "db_consumed = \<lparr>admins = [admin0], refreshTokens = [rowA\<lparr>isRevoked := True\<rparr>, rowB]\<rparr>"

text \<open>The token minted for \<open>admin0\<close> at clock 5000 ms, and its ledger row.\<close>

definition tokC :: jwt where
  "tokC = Jwt (RefreshClaims 1) ''r'' 5 604805"

definition rowC :: refreshTokenDoc where
  "rowC = \<lparr>token = tokC, user = 1, expiresAt = 604805000, isRevoked = False\<rparr>"

text \<open>What \<^verbatim>\<open>verifyRefreshToken\<close> attaches for \<open>tokA\<close> on \<open>db_active\<close>.\<close>

definition reqA :: refreshReq where
  "reqA = \<lparr>req_admin = admin0\<lparr>password := None\<rparr>, req_refreshToken = Some tokA,
           req_tokenDoc = Some rowA\<rparr>"

text \<open>A registration request, the empty store, and a deactivated copy of \<open>admin0\<close>.\<close>

definition body0 :: registerBody where
  "body0 = \<lparr>body_name = ''Al'', body_email = ''a@x.com'', body_password = ''Secr3t!'',
            body_role = None\<rparr>"

definition db_empty :: db where
  "db_empty = \<lparr>admins = [], refreshTokens = []\<rparr>"

definition db_inactive :: db where
  "db_inactive = \<lparr>admins = [admin0\<lparr>isActive := False\<rparr>], refreshTokens = [rowA, rowB]\<rparr>"




definition refreshed :: response where
  "refreshed = \<lparr>status = 200, success = True, message = ''Token refreshed successfully'',
                data_admin = None,
                data_accessToken = Some (Jwt (AccessClaims 1 ''a@x.com'' ''admin'') ''s'' 5 905),
                cookies = [setRefreshTokenCookie env0 tokC]\<rparr>"

section \<open>Facts about the ledger operations\<close>

lemma createToken_Inr:
  "createToken w u t n d = Inr (doc, d') \<Longrightarrow>
     token doc = t \<and> user doc = u \<and> \<not> isRevoked doc \<and> \<not> fails w CreateToken
     \<and> t \<notin> set (map token (refreshTokens d))
     \<and> d' = d\<lparr>refreshTokens := refreshTokens d @ [doc]\<rparr>"
  by (auto simp: createToken_def Let_def split: option.splits if_splits)

lemma createToken_fails: "fails w CreateToken \<Longrightarrow> \<exists>err. createToken w u t n d = Inl err"
  by (auto simp: createToken_def Let_def split: option.splits)

lemmas eval_defs =
  env0_def world0_def admin0_def db0_def
  generateRefreshToken_def signRefreshToken_def generateAccessToken_def jwt_sign_def
  seconds_def createToken_def newDate_def expiresInSeconds_def parseInt_def
  digitsValue_def digitValue_def isWhiteSpace_def Let_def

lemmas ex_defs =
  tokA_def tokB_def tokC_def rowA_def rowB_def rowC_def db_active_def db_consumed_def reqA_def

lemmas route_defs =
  refreshRoute_def verifyRefreshToken_def findValidToken_def findById_def
  refreshToken_def consumeToken_def revokeToken_def revokeAllLogged_def revokeAllForUser_def
  updateMany_def issueTokens_def setRefreshTokenCookie_def clearRefreshTokenCookie_def
  logout_def invalidOrExpired_def invalidRefreshToken_def refreshTokenRequired_def
  reuseDetected_def

lemma findOneAndUpdate_none:
  "\<forall>r\<in>set rs. \<not> P r \<Longrightarrow> findOneAndUpdate P f rs = (None, rs)"
  by (induction rs) auto

lemma findOneAndUpdate_some:
  "\<exists>r\<in>set rs. P r \<Longrightarrow>
   \<exists>pre r post. rs = pre @ r # post \<and> P r \<and> (\<forall>x\<in>set pre. \<not> P x)
      \<and> findOneAndUpdate P f rs = (Some (f r), pre @ f r # post)"
proof (induction rs)
  case Nil
  then show ?case by simp
next
  case (Cons a rs)
  show ?case
  proof (cases "P a")
    case True
    then have "a # rs = [] @ a # rs \<and> P a \<and> (\<forall>x\<in>set []. \<not> P x)
      \<and> findOneAndUpdate P f (a # rs) = (Some (f a), [] @ f a # rs)" by simp
    then show ?thesis by blast
  next
    case False
    with Cons.prems have "\<exists>r\<in>set rs. P r" by auto
    from Cons.IH[OF this] obtain pre r post where
      h: "rs = pre @ r # post" "P r" "\<forall>x\<in>set pre. \<not> P x"
         "findOneAndUpdate P f rs = (Some (f r), pre @ f r # post)" by blast
    with False have "a # rs = (a # pre) @ r # post \<and> P r \<and> (\<forall>x\<in>set (a # pre). \<not> P x)
      \<and> findOneAndUpdate P f (a # rs) = (Some (f r), (a # pre) @ f r # post)" by simp
    then show ?thesis by blast
  qed
qed

text \<open>With unique keys, updating the first match is updating every match.\<close>

lemma findOneAndUpdate_unique:
  "distinct (map k rs) \<Longrightarrow>
   snd (findOneAndUpdate (\<lambda>r. k r = t) f rs) = map (\<lambda>r. if k r = t then f r else r) rs"
proof (induction rs)
  case Nil
  then show ?case by simp
next
  case (Cons a rs)
  show ?case
  proof (cases "k a = t")
    case True
    from Cons.prems have "k a \<notin> k ` set rs" by simp
    with True have "\<forall>r\<in>set rs. k r \<noteq> t" by (metis imageI)
    then have "map (\<lambda>r. if k r = t then f r else r) rs = rs"
      by (induction rs) auto
    with True show ?thesis by simp
  next
    case False
    with Cons show ?thesis by (simp add: split_beta)
  qed
qed


lemma verify_no_valid_row:
  assumes "truthy cookie"
    and "\<forall>r\<in>set (refreshTokens d). token r = the cookie \<longrightarrow> isRevoked r \<or> expiresAt r \<le> now w"
  shows "verifyRefreshToken w cookie d =
           Inl (if fails w FindValidToken then invalidRefreshToken else invalidOrExpired)"
proof -
  have "find (\<lambda>r. token r = the cookie \<and> isRevoked r = False \<and> expiresAt r > now w)
          (refreshTokens d) = None"
    using assms(2) by (auto simp: find_None_iff)
  then show ?thesis using assms(1) by (simp add: verifyRefreshToken_def findValidToken_def)
qed

lemma revokeAllLogged_tokens:
  "map token (refreshTokens (revokeAllLogged w u d)) = map token (refreshTokens d)"
  by (simp add: revokeAllLogged_def revokeAllForUser_def updateMany_def comp_def)


lemma revokeAllLogged_rows:
  "\<not> fails w RevokeAllForUser \<Longrightarrow>
   refreshTokens (revokeAllLogged w u d) =
     map (\<lambda>r. if user r = u \<and> \<not> isRevoked r then r\<lparr>isRevoked := True\<rparr> else r) (refreshTokens d)"
  by (simp add: revokeAllLogged_def revokeAllForUser_def updateMany_def)

lemma revokeAllLogged_revokes:
  assumes "\<not> fails w RevokeAllForUser"
  shows "\<forall>r\<in>set (refreshTokens (revokeAllLogged w u d)). user r = u \<longrightarrow> isRevoked r"
proof (intro ballI impI)
  fix r assume r: "r \<in> set (refreshTokens (revokeAllLogged w u d))" and u: "user r = u"
  from r obtain x where x: "x \<in> set (refreshTokens d)"
    and rx: "r = (if user x = u \<and> \<not> isRevoked x then x\<lparr>isRevoked := True\<rparr> else x)"
    unfolding revokeAllLogged_rows[OF assms] by auto
  show "isRevoked r"
  proof (cases "user x = u \<and> \<not> isRevoked x")
    case True
    with rx show ?thesis by simp
  next
    case False
    with rx have "r = x" by simp
    with False u show ?thesis by simp
  qed
qed

lemma generateRefreshToken_Inr:
  assumes "generateRefreshToken e w a d = Inr (t, d')"
  shows "t = signRefreshToken e w a \<and> t \<notin> set (map token (refreshTokens d))
     \<and> (\<exists>doc. token doc = t \<and> user doc = oid a \<and> \<not> isRevoked doc
             \<and> d' = d\<lparr>refreshTokens := refreshTokens d @ [doc]\<rparr>)"
proof -
  from assms obtain doc where
    c: "createToken w (oid a) (signRefreshToken e w a) (expiresInSeconds (JWT_REFRESH_EXPIRE e)) d = Inr (doc, d')"
    and t: "t = signRefreshToken e w a"
    by (auto simp: generateRefreshToken_def Let_def split: sum.splits)
  from createToken_Inr[OF c] t show ?thesis by blast
qed

lemma issueTokens_Responded:
  assumes "issueTokens e w a d = (Responded resp, d2)"
  shows "status resp = 200 \<and> data_accessToken resp = Some (generateAccessToken e w a)
     \<and> cookies resp = [setRefreshTokenCookie e (signRefreshToken e w a)]
     \<and> signRefreshToken e w a \<notin> set (map token (refreshTokens d))
     \<and> (\<exists>doc. token doc = signRefreshToken e w a \<and> user doc = oid a \<and> \<not> isRevoked doc
             \<and> d2 = d\<lparr>refreshTokens := refreshTokens d @ [doc]\<rparr>)"
proof -
  from assms obtain t where g: "generateRefreshToken e w a d = Inr (t, d2)"
    and r: "resp = \<lparr>status = 200, success = True,
             message = ''Token refreshed successfully'',
             data_admin = None,
             data_accessToken = Some (generateAccessToken e w a),
             cookies = [setRefreshTokenCookie e t]\<rparr>"
    by (auto simp: issueTokens_def split: sum.splits)
  from generateRefreshToken_Inr[OF g] r show ?thesis by auto
qed

lemma issueTokens_Next: "issueTokens e w a d = (Next err, d2) \<Longrightarrow> d2 = d"
  by (auto simp: issueTokens_def split: sum.splits)

lemma consumeToken_none:
  assumes "\<not> fails w FindOneAndUpdate"
    and "\<forall>r\<in>set (refreshTokens d). token r = t \<longrightarrow> isRevoked r"
  shows "consumeToken w t d = Inr (None, d)"
proof -
  have "findOneAndUpdate (\<lambda>r. token r = t \<and> isRevoked r = False) (\<lambda>r. r\<lparr>isRevoked := True\<rparr>)
          (refreshTokens d) = (None, refreshTokens d)"
    using assms(2) by (intro findOneAndUpdate_none) auto
  with assms(1) show ?thesis by (simp add: consumeToken_def)
qed

lemma consumeToken_some:
  assumes "\<not> fails w FindOneAndUpdate"
    and "\<exists>r\<in>set (refreshTokens d). token r = t \<and> \<not> isRevoked r"
  shows "\<exists>pre r post. refreshTokens d = pre @ r # post \<and> token r = t \<and> \<not> isRevoked r
           \<and> (\<forall>x\<in>set pre. \<not> (token x = t \<and> \<not> isRevoked x))
           \<and> consumeToken w t d =
               Inr (Some (r\<lparr>isRevoked := True\<rparr>),
                    d\<lparr>refreshTokens := pre @ r\<lparr>isRevoked := True\<rparr> # post\<rparr>)"
proof -
  from assms(2) have "\<exists>r\<in>set (refreshTokens d). token r = t \<and> isRevoked r = False" by simp
  from findOneAndUpdate_some[OF this, of "\<lambda>r. r\<lparr>isRevoked := True\<rparr>"]
  obtain pre r post where h: "refreshTokens d = pre @ r # post" "token r = t \<and> isRevoked r = False"
     "\<forall>x\<in>set pre. \<not> (token x = t \<and> isRevoked x = False)"
     "findOneAndUpdate (\<lambda>r. token r = t \<and> isRevoked r = False) (\<lambda>r. r\<lparr>isRevoked := True\<rparr>)
          (refreshTokens d) = (Some (r\<lparr>isRevoked := True\<rparr>), pre @ r\<lparr>isRevoked := True\<rparr> # post)"
    by blast
  with assms(1) have "consumeToken w t d =
               Inr (Some (r\<lparr>isRevoked := True\<rparr>),
                    d\<lparr>refreshTokens := pre @ r\<lparr>isRevoked := True\<rparr> # post\<rparr>)"
    by (simp add: consumeToken_def)
  with h show ?thesis by auto
qed


lemmas admin_defs =
  register_def login_def findOne_def createAdmin_def validateAdmin_def emailMatch_def dotted_def
  wordChar_def separator_def trim_def toLowerCase_def newObjectId_def preSave_def bcrypt_hash_def
  saveLastLogin_def body0_def db_empty_def db_inactive_def protect_def bearerToken_def findAdminById_def

lemma generateAccessToken_fields:
  "oid a' = oid a \<Longrightarrow> email a' = email a \<Longrightarrow> role a' = role a \<Longrightarrow>
   generateAccessToken e w a' = generateAccessToken e w a"
  by (simp add: generateAccessToken_def)

lemma generateRefreshToken_admins:
  "generateRefreshToken e w a d = Inr (t, d') \<Longrightarrow> admins d' = admins d"
  by (auto simp: generateRefreshToken_def createToken_def Let_def split: sum.splits option.splits if_splits)

lemma find_unique:
  assumes "distinct (map k xs)" "r \<in> set xs" "P r" "\<And>x. P x \<Longrightarrow> k x = k r"
  shows "find P xs = Some r"
  using assms(1,2)
proof (induction xs)
  case Nil
  then show ?case by simp
next
  case (Cons a xs)
  show ?case
  proof (cases "a = r")
    case True
    with assms(3) show ?thesis by simp
  next
    case False
    with Cons.prems have r: "r \<in> set xs" and d: "distinct (map k xs)" and "k a \<notin> k ` set xs"
      by auto
    then have "k a \<noteq> k r" by (metis imageI)
    with assms(4) have "\<not> P a" by metis
    with Cons.IH[OF d r] show ?thesis by simp
  qed
qed

lemma consumeToken_tokens:
  "consumeToken w t d = Inr (res, d') \<Longrightarrow>
     map token (refreshTokens d') = map token (refreshTokens d) \<and> admins d' = admins d"
proof -
  have "map token (snd (findOneAndUpdate P (\<lambda>r. r\<lparr>isRevoked := True\<rparr>) rs)) = map token rs"
    for P and rs :: "refreshTokenDoc list"
    by (induction rs) (auto simp: split_beta)
  then show "consumeToken w t d = Inr (res, d') \<Longrightarrow>
     map token (refreshTokens d') = map token (refreshTokens d) \<and> admins d' = admins d"
    by (auto simp: consumeToken_def split: if_splits prod.splits) (metis snd_conv)
qed

lemma generateRefreshToken_succeeds:
  assumes "\<not> fails w CreateToken"
    and "signRefreshToken e w a \<notin> set (map token (refreshTokens d))"
    and "newDate (map_option (\<lambda>n. now w + n * 1000) (expiresInSeconds (JWT_REFRESH_EXPIRE e))) = Some ex"
  shows "generateRefreshToken e w a d =
           Inr (signRefreshToken e w a,
                d\<lparr>refreshTokens := refreshTokens d @
                   [\<lparr>token = signRefreshToken e w a, user = oid a, expiresAt = ex, isRevoked = False\<rparr>]\<rparr>)"
  using assms
  by (simp add: generateRefreshToken_def createToken_def signRefreshToken_def jwt_sign_def Let_def)

section \<open>The step model agrees with the handlers\<close>

text \<open>
  Three steps of one request in one world, with nothing in between, are the refresh route.
\<close>

lemma refreshStep_sequential:
  "(case refreshStep e w (Start cookie) d of (p1, d1) \<Rightarrow>
      case refreshStep e w p1 d1 of (p2, d2) \<Rightarrow> refreshStep e w p2 d2)
   = (Done (fst (refreshRoute e w cookie d)), snd (refreshRoute e w cookie d))"
  by (simp add: refreshStep_def refreshRoute_def refreshToken_def Let_def split_beta
      split: sum.splits option.splits prod.splits)

section \<open>Steps of two racing refresh calls\<close>






section \<open>The invariant of the race\<close>

lemma waiting_not_done: "waiting r a p \<Longrightarrow> p \<noteq> Done out"
  by (auto simp: waiting_def)







section \<open>Every request finishes within three store calls\<close>





section \<open>Facts about login\<close>

lemma find_Some_mem: "find P xs = Some x \<Longrightarrow> x \<in> set xs \<and> P x"
  by (auto simp: find_Some_iff)

lemma login_Responded:
  assumes "login e w em pw d = (Responded resp, d')"
  shows "\<exists>a h. em \<noteq> [] \<and> pw \<noteq> [] \<and> \<not> fails w FindOne \<and> \<not> fails w Save
           \<and> find (\<lambda>x. email x = toLowerCase em) (admins d) = Some a
           \<and> password a = Some h \<and> bcrypt_compare pw h \<and> isActive a
           \<and> resp = \<lparr>status = 200, success = True, message = ''Login successful'',
                      data_admin = Some (a\<lparr>lastLogin := Some (now w), password := None\<rparr>),
                      data_accessToken = Some (generateAccessToken e w a),
                      cookies = [setRefreshTokenCookie e (signRefreshToken e w a)]\<rparr>
           \<and> (\<exists>doc. token doc = signRefreshToken e w a \<and> user doc = oid a \<and> \<not> isRevoked doc
                 \<and> d' = d\<lparr>admins := updateMany (\<lambda>x. oid x = oid a)
                                        (\<lambda>x. x\<lparr>lastLogin := Some (now w)\<rparr>) (admins d),
                          refreshTokens := refreshTokens d @ [doc]\<rparr>)"
proof -
  from assms have ne: "em \<noteq> []" "pw \<noteq> []" by (auto simp: login_def split: if_splits)
  from assms ne obtain a where a: "findOne w True em d = Inr (Some a)"
    by (auto simp: login_def split: sum.splits option.splits)
  then have fa: "find (\<lambda>x. email x = toLowerCase em) (admins d) = Some a" "\<not> fails w FindOne"
    by (auto simp: findOne_def split: if_splits)
  from assms ne a obtain h where h: "password a = Some h" "bcrypt_compare pw h" and act: "isActive a"
    by (auto simp: login_def split: sum.splits option.splits if_splits)
  from assms ne a h act obtain a1 d1 where s: "saveLastLogin w a d = Inr (a1, d1)"
    by (auto simp: login_def split: sum.splits)
  then have a1: "a1 = a\<lparr>lastLogin := Some (now w)\<rparr>" and sv: "\<not> fails w Save"
    and d1: "d1 = d\<lparr>admins := updateMany (\<lambda>x. oid x = oid a)
                                 (\<lambda>x. x\<lparr>lastLogin := Some (now w)\<rparr>) (admins d)\<rparr>"
    by (auto simp: saveLastLogin_def preSave_def Let_def split: if_splits)
  from assms ne a h act s obtain t where g: "generateRefreshToken e w a1 d1 = Inr (t, d')"
    and r: "resp = \<lparr>status = 200, success = True, message = ''Login successful'',
                 data_admin = Some (a1\<lparr>password := None\<rparr>),
                 data_accessToken = Some (generateAccessToken e w a1),
                 cookies = [setRefreshTokenCookie e t]\<rparr>"
    by (auto simp: login_def Let_def split: sum.splits)
  have same: "generateAccessToken e w a1 = generateAccessToken e w a"
             "signRefreshToken e w a1 = signRefreshToken e w a" "oid a1 = oid a"
    using a1 by (simp_all add: generateAccessToken_def signRefreshToken_def)
  from generateRefreshToken_Inr[OF g] same obtain doc where
    t: "t = signRefreshToken e w a" and
    doc: "token doc = signRefreshToken e w a" "user doc = oid a" "\<not> isRevoked doc"
         "d' = d1\<lparr>refreshTokens := refreshTokens d1 @ [doc]\<rparr>" by auto
  from doc(4) d1 have d': "d' = d\<lparr>admins := updateMany (\<lambda>x. oid x = oid a)
                                        (\<lambda>x. x\<lparr>lastLogin := Some (now w)\<rparr>) (admins d),
                          refreshTokens := refreshTokens d @ [doc]\<rparr>" by simp
  from r a1 same t have r': "resp = \<lparr>status = 200, success = True, message = ''Login successful'',
                      data_admin = Some (a\<lparr>lastLogin := Some (now w), password := None\<rparr>),
                      data_accessToken = Some (generateAccessToken e w a),
                      cookies = [setRefreshTokenCookie e (signRefreshToken e w a)]\<rparr>" by simp
  from ne fa sv h act r' doc(1-3) d' show ?thesis by blast
qed

lemma login_succeeds:
  assumes ne: "em \<noteq> []" "pw \<noteq> []"
    and fa: "\<not> fails w FindOne" "find (\<lambda>x. email x = toLowerCase em) (admins d) = Some a"
    and cr: "password a = Some h" "bcrypt_compare pw h" "isActive a"
    and st: "\<not> fails w Save" "\<not> fails w CreateToken"
    and mint: "signRefreshToken e w a \<notin> set (map token (refreshTokens d))"
      "newDate (map_option (\<lambda>n. now w + n * 1000) (expiresInSeconds (JWT_REFRESH_EXPIRE e))) = Some ex"
  shows "login e w em pw d =
     (Responded \<lparr>status = 200, success = True, message = ''Login successful'',
                 data_admin = Some (a\<lparr>lastLogin := Some (now w), password := None\<rparr>),
                 data_accessToken = Some (generateAccessToken e w a),
                 cookies = [setRefreshTokenCookie e (signRefreshToken e w a)]\<rparr>,
      d\<lparr>admins := updateMany (\<lambda>x. oid x = oid a) (\<lambda>x. x\<lparr>lastLogin := Some (now w)\<rparr>) (admins d),
        refreshTokens := refreshTokens d @
          [\<lparr>token = signRefreshToken e w a, user = oid a, expiresAt = ex, isRevoked = False\<rparr>]\<rparr>)"
proof -
  let ?a1 = "a\<lparr>lastLogin := Some (now w)\<rparr>"
  let ?d1 = "d\<lparr>admins := updateMany (\<lambda>x. oid x = oid a)
                                 (\<lambda>x. x\<lparr>lastLogin := Some (now w)\<rparr>) (admins d)\<rparr>"
  have f: "findOne w True em d = Inr (Some a)" using fa by (simp add: findOne_def)
  have s: "saveLastLogin w a d = Inr (?a1, ?d1)"
    using st(1) by (simp add: saveLastLogin_def preSave_def Let_def)
  have same: "generateAccessToken e w ?a1 = generateAccessToken e w a"
             "signRefreshToken e w ?a1 = signRefreshToken e w a"
    by (simp_all add: generateAccessToken_def signRefreshToken_def)
  have fresh: "signRefreshToken e w ?a1 \<notin> set (map token (refreshTokens ?d1))"
    using mint(1) same by simp
  from generateRefreshToken_succeeds[OF st(2) fresh mint(2)] same
  have g: "generateRefreshToken e w ?a1 ?d1 =
      Inr (signRefreshToken e w a,
           ?d1\<lparr>refreshTokens := refreshTokens ?d1 @
             [\<lparr>token = signRefreshToken e w a, user = oid a, expiresAt = ex, isRevoked = False\<rparr>]\<rparr>)"
    by simp
  show ?thesis
    using ne f cr s g same by (simp add: login_def del: bcrypt_compare.simps)
qed

lemma findOneAndUpdate_unique_guarded:
  assumes "distinct (map k rs)" "r \<in> set rs" "Q r"
  shows "findOneAndUpdate (\<lambda>x. k x = k r \<and> Q x) f rs =
           (Some (f r), map (\<lambda>x. if k x = k r then f x else x) rs)"
  using assms(1,2)
proof (induction rs)
  case Nil
  then show ?case by simp
next
  case (Cons a rs)
  show ?case
  proof (cases "a = r")
    case True
    from Cons.prems(1) True have "k r \<notin> k ` set rs" by simp
    then have "\<forall>x\<in>set rs. k x \<noteq> k r" by (metis imageI)
    then have "map (\<lambda>x. if k x = k r then f x else x) rs = rs" by (induction rs) auto
    with True assms(3) show ?thesis by simp
  next
    case False
    with Cons.prems have r: "r \<in> set rs" and d: "distinct (map k rs)" and "k a \<notin> k ` set rs"
      by auto
    then have "k a \<noteq> k r" by (metis imageI)
    with Cons.IH[OF d r] show ?thesis by simp
  qed
qed

lemma consumeToken_unique:
  assumes "\<not> fails w FindOneAndUpdate" "distinct (map token (refreshTokens d))"
    "r \<in> set (refreshTokens d)" "\<not> isRevoked r"
  shows "consumeToken w (token r) d =
           Inr (Some (r\<lparr>isRevoked := True\<rparr>),
                d\<lparr>refreshTokens :=
                    map (\<lambda>x. if token x = token r then x\<lparr>isRevoked := True\<rparr> else x)
                      (refreshTokens d)\<rparr>)"
proof -
  from assms(4) have q: "isRevoked r = False" by simp
  from findOneAndUpdate_unique_guarded[of token "refreshTokens d" r "\<lambda>x. isRevoked x = False"
         "\<lambda>x. x\<lparr>isRevoked := True\<rparr>", OF assms(2) assms(3) q] assms(1)
  show ?thesis by (simp add: consumeToken_def)
qed

section \<open>Claims\<close>

text \<open>
  C6. \<^verbatim>\<open>generateRefreshToken\<close> returns a token only after \<^verbatim>\<open>createToken\<close> has stored its
  ledger row: whenever a token is returned, the resulting ledger holds an unrevoked row
  with that token value for that account and the store call did not throw; and when the
  store call throws, the mint returns an error and no token.
\<close>

theorem generateRefreshToken_recorded:
  "(\<forall>t d'. generateRefreshToken e w a d = Inr (t, d') \<longrightarrow>
      (\<exists>doc \<in> set (refreshTokens d'). token doc = t \<and> user doc = oid a \<and> \<not> isRevoked doc)
      \<and> \<not> fails w CreateToken)
   \<and> (fails w CreateToken \<longrightarrow> (\<exists>err. generateRefreshToken e w a d = Inl err))"
proof (intro conjI allI impI)
  fix t d' assume h: "generateRefreshToken e w a d = Inr (t, d')"
  then obtain doc where
    c: "createToken w (oid a) t (expiresInSeconds (JWT_REFRESH_EXPIRE e)) d = Inr (doc, d')"
    by (auto simp: generateRefreshToken_def Let_def split: sum.splits)
  from createToken_Inr[OF c]
  show "\<exists>doc \<in> set (refreshTokens d'). token doc = t \<and> user doc = oid a \<and> \<not> isRevoked doc"
    by auto
  from createToken_Inr[OF c] show "\<not> fails w CreateToken" by simp
next
  assume "fails w CreateToken"
  from createToken_fails[OF this] show "\<exists>err. generateRefreshToken e w a d = Inl err"
    by (metis generateRefreshToken_def old.sum.simps(5))
qed

theorem generateRefreshToken_recorded_witness:
  "(\<exists>t d'. generateRefreshToken env0 (world0 5000 []) admin0 db0 = Inr (t, d')
      \<and> (\<exists>doc \<in> set (refreshTokens d'). token doc = t \<and> user doc = oid admin0 \<and> \<not> isRevoked doc))
   \<and> fails (world0 5000 [CreateToken]) CreateToken
   \<and> (\<exists>err. generateRefreshToken env0 (world0 5000 [CreateToken]) admin0 db0 = Inl err)"
proof -
  have ok: "generateRefreshToken env0 (world0 5000 []) admin0 db0 =
      Inr (Jwt (RefreshClaims 1) ''r'' 5 604805,
           db0\<lparr>refreshTokens := [\<lparr>token = Jwt (RefreshClaims 1) ''r'' 5 604805, user = 1,
                                  expiresAt = 604805000, isRevoked = False\<rparr>]\<rparr>)"
    by (simp add: eval_defs)
  have f: "fails (world0 5000 [CreateToken]) CreateToken"
    by (simp add: world0_def)
  from generateRefreshToken_recorded [of env0 "world0 5000 []" admin0 db0] ok
       generateRefreshToken_recorded [of env0 "world0 5000 [CreateToken]" admin0 db0] f
  show ?thesis by blast
qed

text \<open>
  C1. A refresh token whose ledger row is already revoked is presented to the refresh
  route. The documentation and the handler's own first branch promise reuse detection
  (401 "reuse detected" and every token of the account revoked). The route does not get
  there: \<^verbatim>\<open>verifyRefreshToken\<close> looks the token up with \<^verbatim>\<open>findValidToken\<close>, which filters on
  \<^verbatim>\<open>isRevoked: false\<close>, so the revoked row is not found, the answer is the generic
  "Invalid or expired refresh token", and the ledger is left as it was (the sibling
  token \<open>tokB\<close> stays unrevoked).
\<close>

theorem revoked_token_refresh_is_invalid_not_reuse:
  "refreshRoute env0 (world0 5000 []) (Some tokA) db_consumed =
     (Next (AppError ''Invalid or expired refresh token'' 401), db_consumed)"
  by (simp add: route_defs ex_defs eval_defs)

text \<open>
  C4, as stated, fails for the missing cookie: the status is 400, not 401.
\<close>

theorem missing_cookie_is_400:
  "refreshRoute env0 (world0 5000 []) None db_active =
     (Next (AppError ''Refresh token is required'' 400), db_active)"
  by (simp add: route_defs ex_defs eval_defs)

text \<open>
  C4, amended. A missing (or empty) refresh cookie is rejected with "Refresh token is
  required" and status 400. A token that the ledger does not know, or whose row is
  unrevoked but past its expiry, is rejected with status 401 ("Invalid or expired refresh
  token"; "Invalid refresh token" when the lookup itself throws). In all these cases the
  store is left exactly as it was: nothing is revoked.
\<close>

theorem refresh_invalid_tokens:
  "(\<not> truthy cookie \<longrightarrow>
      refreshRoute e w cookie d = (Next (AppError ''Refresh token is required'' 400), d))
   \<and> (truthy cookie \<and> (\<forall>r\<in>set (refreshTokens d). token r = the cookie \<longrightarrow>
                          \<not> isRevoked r \<and> expiresAt r \<le> now w) \<longrightarrow>
      refreshRoute e w cookie d =
        (Next (AppError (if fails w FindValidToken then ''Invalid refresh token''
                         else ''Invalid or expired refresh token'') 401), d))"
proof (intro conjI impI)
  assume "\<not> truthy cookie"
  then show "refreshRoute e w cookie d = (Next (AppError ''Refresh token is required'' 400), d)"
    by (simp add: refreshRoute_def verifyRefreshToken_def refreshTokenRequired_def)
next
  assume h: "truthy cookie \<and> (\<forall>r\<in>set (refreshTokens d). token r = the cookie \<longrightarrow>
                          \<not> isRevoked r \<and> expiresAt r \<le> now w)"
  then have "verifyRefreshToken w cookie d =
           Inl (if fails w FindValidToken then invalidRefreshToken else invalidOrExpired)"
    by (intro verify_no_valid_row) auto
  then show "refreshRoute e w cookie d =
        (Next (AppError (if fails w FindValidToken then ''Invalid refresh token''
                         else ''Invalid or expired refresh token'') 401), d)"
    by (simp add: refreshRoute_def invalidRefreshToken_def invalidOrExpired_def)
qed

text \<open>
  Witness for C4: no cookie; a token the ledger does not know (\<open>tokC\<close>); and \<open>tokA\<close>
  presented after its expiry, its row never revoked.
\<close>

theorem refresh_invalid_tokens_witness:
  "\<not> truthy None
   \<and> refreshRoute env0 (world0 5000 []) None db_active =
       (Next (AppError ''Refresh token is required'' 400), db_active)
   \<and> refreshRoute env0 (world0 5000 []) (Some tokC) db_active =
       (Next (AppError ''Invalid or expired refresh token'' 401), db_active)
   \<and> expiresAt rowA \<le> now (world0 604800000 []) \<and> \<not> isRevoked rowA
   \<and> refreshRoute env0 (world0 604800000 []) (Some tokA) db_active =
       (Next (AppError ''Invalid or expired refresh token'' 401), db_active)"
proof -
  have a: "\<not> truthy None" by simp
  have b: "truthy (Some tokC) \<and> (\<forall>r\<in>set (refreshTokens db_active). token r = the (Some tokC) \<longrightarrow>
             \<not> isRevoked r \<and> expiresAt r \<le> now (world0 5000 []))"
    by (simp add: ex_defs world0_def)
  have c: "truthy (Some tokA) \<and> (\<forall>r\<in>set (refreshTokens db_active). token r = the (Some tokA) \<longrightarrow>
             \<not> isRevoked r \<and> expiresAt r \<le> now (world0 604800000 []))"
    by (simp add: ex_defs world0_def)
  have f: "\<And>t. \<not> fails (world0 t []) FindValidToken" by (simp add: world0_def)
  have r: "expiresAt rowA \<le> now (world0 604800000 []) \<and> \<not> isRevoked rowA"
    by (simp add: ex_defs world0_def)
  from refresh_invalid_tokens [where cookie = None and e = env0 and w = "world0 5000 []" and d = db_active]
       refresh_invalid_tokens [where cookie = "Some tokC" and e = env0 and w = "world0 5000 []" and d = db_active]
       refresh_invalid_tokens [where cookie = "Some tokA" and e = env0 and w = "world0 604800000 []" and d = db_active]
       a b c f r
  show ?thesis by simp
qed

text \<open>
  C5, as stated, fails when the ledger call throws: the handler's \<^verbatim>\<open>await\<close> rethrows, the
  error goes to \<^verbatim>\<open>next\<close>, and \<^verbatim>\<open>clearRefreshTokenCookie\<close> is never reached.
\<close>

theorem logout_store_failure_keeps_cookie:
  "logout env0 (world0 5000 [RevokeToken]) (Some tokA) db_active = (Next StoreFailure, db_active)"
  by (simp add: route_defs ex_defs eval_defs)

text \<open>
  C5, amended. Whenever the ledger call of \<^verbatim>\<open>logout\<close> returns (token values being
  unique in the ledger), the answer is 200 with the refresh cookie cleared, whether the
  presented token was found, was already revoked, was unknown or was missing from the
  request; the row with exactly the presented token value gets \<^verbatim>\<open>isRevoked = true\<close> and
  every other row, and every account, is unchanged.
\<close>

theorem logout_revokes_only_presented:
  assumes "\<not> fails w RevokeToken" and "distinct (map token (refreshTokens d))"
  shows "logout e w cookie d =
     (Responded \<lparr>status = 200, success = True, message = ''Logged out successfully'',
                 data_admin = None, data_accessToken = None,
                 cookies = [clearRefreshTokenCookie e]\<rparr>,
      d\<lparr>refreshTokens :=
          map (\<lambda>r. if truthy cookie \<and> token r = the cookie then r\<lparr>isRevoked := True\<rparr> else r)
            (refreshTokens d)\<rparr>)"
proof (cases "truthy cookie")
  case True
  have "snd (findOneAndUpdate (\<lambda>r. token r = the cookie) (\<lambda>r. r\<lparr>isRevoked := True\<rparr>) (refreshTokens d))
        = map (\<lambda>r. if token r = the cookie then r\<lparr>isRevoked := True\<rparr> else r) (refreshTokens d)"
    using assms(2) by (rule findOneAndUpdate_unique)
  with True assms(1) show ?thesis
    by (simp add: logout_def revokeToken_def split_beta)
next
  case False
  then show ?thesis by (simp add: logout_def)
qed

theorem logout_revokes_only_presented_witness:
  "\<not> fails (world0 5000 []) RevokeToken \<and> distinct (map token (refreshTokens db_active))
   \<and> logout env0 (world0 5000 []) (Some tokA) db_active =
     (Responded \<lparr>status = 200, success = True, message = ''Logged out successfully'',
                 data_admin = None, data_accessToken = None,
                 cookies = [clearRefreshTokenCookie env0]\<rparr>,
      db_active\<lparr>refreshTokens := [rowA\<lparr>isRevoked := True\<rparr>, rowB]\<rparr>)"
proof -
  have f: "\<not> fails (world0 5000 []) RevokeToken" by (simp add: world0_def)
  have dd: "distinct (map token (refreshTokens db_active))" by (simp add: ex_defs)
  from logout_revokes_only_presented [OF f dd, where e = env0 and cookie = "Some tokA"] f dd
  show ?thesis by (simp add: ex_defs)
qed


text \<open>
  C2, as stated, fails when the conditional update itself throws: the handler catches
  the error ("do not block rotation for revocation errors") and goes on to mint. Here the
  presented row \<open>rowA\<close> was not consumed, yet a new refresh-token row and a new access
  token are created and returned.
\<close>

theorem rotation_despite_failed_consume:
  "consumeToken (world0 5000 [FindOneAndUpdate]) tokA db_active = Inl StoreFailure
   \<and> refreshToken env0 (world0 5000 [FindOneAndUpdate]) reqA db_active =
     (Responded \<lparr>status = 200, success = True, message = ''Token refreshed successfully'',
        data_admin = None,
        data_accessToken = Some (Jwt (AccessClaims 1 ''a@x.com'' ''admin'') ''s'' 5 905),
        cookies = [setRefreshTokenCookie env0 tokC]\<rparr>,
      db_active\<lparr>refreshTokens := [rowA, rowB, rowC]\<rparr>)"
  by (simp add: route_defs ex_defs eval_defs)

text \<open>
  C2, amended. The presented row was valid when \<^verbatim>\<open>verifyRefreshToken\<close> read it. The
  handler consumes it by a conditional update that revokes a row with that token value
  only if it is still unrevoked at update time.
  (1) If the update finds no such row, the handler runs revoke-all for the account and
  rejects with "reuse detected" (401); no ledger row is created, and unless revoke-all
  throws (which is only logged) every row of the account is revoked.
  (2) If the update returns the row, that row is now revoked and the handler goes on to
  mint.
  (3) If the update call throws, the error is caught and the handler goes on to mint on
  the unchanged ledger.
  (4) A token pair is returned only in cases (2) and (3), and then the new refresh token
  is the cookie, has an unrevoked ledger row of the account, and comes with a new access
  token.
\<close>

theorem refreshToken_consume_cases:
  assumes td: "req_tokenDoc req = Some td" "\<not> isRevoked td" "truthy (Some (token td))"
  shows
  "(\<not> fails w FindOneAndUpdate \<and> (\<forall>r\<in>set (refreshTokens d). token r = token td \<longrightarrow> isRevoked r) \<longrightarrow>
      refreshToken e w req d = (Next reuseDetected, revokeAllLogged w (oid (req_admin req)) d)
      \<and> map token (refreshTokens (revokeAllLogged w (oid (req_admin req)) d)) = map token (refreshTokens d)
      \<and> (\<not> fails w RevokeAllForUser \<longrightarrow>
           (\<forall>r\<in>set (refreshTokens (revokeAllLogged w (oid (req_admin req)) d)).
              user r = oid (req_admin req) \<longrightarrow> isRevoked r)))
   \<and> (\<not> fails w FindOneAndUpdate \<and> (\<exists>r\<in>set (refreshTokens d). token r = token td \<and> \<not> isRevoked r) \<longrightarrow>
      (\<exists>c d1. consumeToken w (token td) d = Inr (Some c, d1) \<and> token c = token td \<and> isRevoked c
          \<and> c \<in> set (refreshTokens d1)
          \<and> refreshToken e w req d = issueTokens e w (req_admin req) d1))
   \<and> (fails w FindOneAndUpdate \<longrightarrow> refreshToken e w req d = issueTokens e w (req_admin req) d)
   \<and> (\<forall>resp d2. refreshToken e w req d = (Responded resp, d2) \<longrightarrow>
        (fails w FindOneAndUpdate \<or> (\<exists>r\<in>set (refreshTokens d). token r = token td \<and> \<not> isRevoked r))
        \<and> data_accessToken resp = Some (generateAccessToken e w (req_admin req))
        \<and> cookies resp = [setRefreshTokenCookie e (signRefreshToken e w (req_admin req))]
        \<and> (\<exists>doc\<in>set (refreshTokens d2). token doc = signRefreshToken e w (req_admin req)
              \<and> user doc = oid (req_admin req) \<and> \<not> isRevoked doc))"
proof -
  let ?a = "req_admin req"
  have none: "refreshToken e w req d = (Next reuseDetected, revokeAllLogged w (oid ?a) d)"
    if "\<not> fails w FindOneAndUpdate" "\<forall>r\<in>set (refreshTokens d). token r = token td \<longrightarrow> isRevoked r"
    using consumeToken_none[OF that] td by (simp add: refreshToken_def)
  have some: "\<exists>c d1. consumeToken w (token td) d = Inr (Some c, d1) \<and> token c = token td \<and> isRevoked c
          \<and> c \<in> set (refreshTokens d1) \<and> refreshToken e w req d = issueTokens e w ?a d1"
    if "\<not> fails w FindOneAndUpdate" "\<exists>r\<in>set (refreshTokens d). token r = token td \<and> \<not> isRevoked r"
  proof -
    from consumeToken_some[OF that] obtain pre r post where
      h: "token r = token td"
         "consumeToken w (token td) d =
               Inr (Some (r\<lparr>isRevoked := True\<rparr>),
                    d\<lparr>refreshTokens := pre @ r\<lparr>isRevoked := True\<rparr> # post\<rparr>)" by blast
    then have "refreshToken e w req d =
        issueTokens e w ?a (d\<lparr>refreshTokens := pre @ r\<lparr>isRevoked := True\<rparr> # post\<rparr>)"
      using td by (simp add: refreshToken_def)
    with h show ?thesis by auto
  qed
  have thrown: "refreshToken e w req d = issueTokens e w ?a d" if "fails w FindOneAndUpdate"
    using that td by (simp add: refreshToken_def consumeToken_def)
  have resp: "(fails w FindOneAndUpdate \<or> (\<exists>r\<in>set (refreshTokens d). token r = token td \<and> \<not> isRevoked r))
        \<and> data_accessToken resp = Some (generateAccessToken e w ?a)
        \<and> cookies resp = [setRefreshTokenCookie e (signRefreshToken e w ?a)]
        \<and> (\<exists>doc\<in>set (refreshTokens d2). token doc = signRefreshToken e w ?a
              \<and> user doc = oid ?a \<and> \<not> isRevoked doc)"
    if r: "refreshToken e w req d = (Responded resp, d2)" for resp d2
  proof (cases "fails w FindOneAndUpdate")
    case True
    from thrown[OF True] r have "issueTokens e w ?a d = (Responded resp, d2)" by simp
    from issueTokens_Responded[OF this] True show ?thesis by auto
  next
    case False
    show ?thesis
    proof (cases "\<exists>r\<in>set (refreshTokens d). token r = token td \<and> \<not> isRevoked r")
      case True
      from some[OF False True] r obtain d1 where "issueTokens e w ?a d1 = (Responded resp, d2)"
        by auto
      from issueTokens_Responded[OF this] True show ?thesis by auto
    next
      case no: False
      then have "\<forall>r\<in>set (refreshTokens d). token r = token td \<longrightarrow> isRevoked r" by blast
      from none[OF False this] r show ?thesis by simp
    qed
  qed
  show ?thesis
  proof (intro conjI impI allI)
    assume h: "\<not> fails w FindOneAndUpdate \<and> (\<forall>r\<in>set (refreshTokens d). token r = token td \<longrightarrow> isRevoked r)"
    then show "refreshToken e w req d = (Next reuseDetected, revokeAllLogged w (oid ?a) d)"
      using none by blast
  next
    show "map token (refreshTokens (revokeAllLogged w (oid ?a) d)) = map token (refreshTokens d)"
      by (rule revokeAllLogged_tokens)
  next
    assume "\<not> fails w RevokeAllForUser"
    then show "\<forall>r\<in>set (refreshTokens (revokeAllLogged w (oid ?a) d)). user r = oid ?a \<longrightarrow> isRevoked r"
      by (rule revokeAllLogged_revokes)
  next
    assume "\<not> fails w FindOneAndUpdate \<and> (\<exists>r\<in>set (refreshTokens d). token r = token td \<and> \<not> isRevoked r)"
    then show "\<exists>c d1. consumeToken w (token td) d = Inr (Some c, d1) \<and> token c = token td \<and> isRevoked c
          \<and> c \<in> set (refreshTokens d1) \<and> refreshToken e w req d = issueTokens e w ?a d1"
      using some by blast
  next
    assume "fails w FindOneAndUpdate"
    then show "refreshToken e w req d = issueTokens e w ?a d" by (rule thrown)
  next
    fix resp d2 assume r: "refreshToken e w req d = (Responded resp, d2)"
    from resp[OF r] show "fails w FindOneAndUpdate \<or> (\<exists>r\<in>set (refreshTokens d). token r = token td \<and> \<not> isRevoked r)" by blast
    from resp[OF r] show "data_accessToken resp = Some (generateAccessToken e w ?a)" by blast
    from resp[OF r] show "cookies resp = [setRefreshTokenCookie e (signRefreshToken e w ?a)]" by blast
    from resp[OF r] show "\<exists>doc\<in>set (refreshTokens d2). token doc = signRefreshToken e w ?a
              \<and> user doc = oid ?a \<and> \<not> isRevoked doc" by blast
  qed
qed

text \<open>
  Witness for C2: \<open>tokA\<close> presented on a ledger where it was consumed in the meantime,
  on a ledger where it is still unrevoked, and with the update call throwing.
\<close>

theorem refreshToken_consume_cases_witness:
  "req_tokenDoc reqA = Some rowA \<and> \<not> isRevoked rowA \<and> truthy (Some (token rowA))
   \<and> refreshToken env0 (world0 5000 []) reqA db_consumed =
        (Next reuseDetected,
         db_consumed\<lparr>refreshTokens := [rowA\<lparr>isRevoked := True\<rparr>, rowB\<lparr>isRevoked := True\<rparr>]\<rparr>)
   \<and> (\<exists>c d1. consumeToken (world0 5000 []) (token rowA) db_active = Inr (Some c, d1)
        \<and> isRevoked c
        \<and> refreshToken env0 (world0 5000 []) reqA db_active =
            issueTokens env0 (world0 5000 []) (req_admin reqA) d1)
   \<and> refreshToken env0 (world0 5000 [FindOneAndUpdate]) reqA db_active =
        issueTokens env0 (world0 5000 [FindOneAndUpdate]) (req_admin reqA) db_active"
proof -
  have td: "req_tokenDoc reqA = Some rowA" "\<not> isRevoked rowA" "truthy (Some (token rowA))"
    by (simp_all add: ex_defs)
  have nf: "\<not> fails (world0 5000 []) FindOneAndUpdate" "\<not> fails (world0 5000 []) RevokeAllForUser"
    and f: "fails (world0 5000 [FindOneAndUpdate]) FindOneAndUpdate"
    by (simp_all add: world0_def)
  have gone: "\<forall>r\<in>set (refreshTokens db_consumed). token r = token rowA \<longrightarrow> isRevoked r"
    by (simp add: ex_defs)
  have there: "\<exists>r\<in>set (refreshTokens db_active). token r = token rowA \<and> \<not> isRevoked r"
    by (simp add: ex_defs)
  have rev: "revokeAllLogged (world0 5000 []) (oid (req_admin reqA)) db_consumed =
      db_consumed\<lparr>refreshTokens := [rowA\<lparr>isRevoked := True\<rparr>, rowB\<lparr>isRevoked := True\<rparr>]\<rparr>"
    by (simp add: revokeAllLogged_def revokeAllForUser_def updateMany_def ex_defs eval_defs)
  from refreshToken_consume_cases [OF td, where w = "world0 5000 []" and d = db_consumed and e = env0]
       nf gone rev
  have 1: "refreshToken env0 (world0 5000 []) reqA db_consumed =
        (Next reuseDetected,
         db_consumed\<lparr>refreshTokens := [rowA\<lparr>isRevoked := True\<rparr>, rowB\<lparr>isRevoked := True\<rparr>]\<rparr>)"
    by simp
  from refreshToken_consume_cases [OF td, where w = "world0 5000 []" and d = db_active and e = env0]
       nf there
  have 2: "\<exists>c d1. consumeToken (world0 5000 []) (token rowA) db_active = Inr (Some c, d1)
        \<and> isRevoked c
        \<and> refreshToken env0 (world0 5000 []) reqA db_active =
            issueTokens env0 (world0 5000 []) (req_admin reqA) d1"
    by blast
  from refreshToken_consume_cases [OF td, where w = "world0 5000 [FindOneAndUpdate]" and d = db_active and e = env0]
       f
  have 3: "refreshToken env0 (world0 5000 [FindOneAndUpdate]) reqA db_active =
        issueTokens env0 (world0 5000 [FindOneAndUpdate]) (req_admin reqA) db_active"
    by blast
  from td 1 2 3 show ?thesis by blast
qed

text \<open>
  C7. Registering on an empty store. The account is persisted with the password hashed,
  an access token is returned and the refresh cookie is set, as claimed; but the
  \<^verbatim>\<open>admin\<close> object of the response is the document \<^verbatim>\<open>Admin.create\<close> returned, which still
  carries the \<^verbatim>\<open>password\<close> field (the bcrypt hash). \<^verbatim>\<open>select: false\<close> hides the field only
  from query results, and \<^verbatim>\<open>register\<close> has no counterpart of the
  \<^verbatim>\<open>delete adminWithoutPassword.password\<close> that \<^verbatim>\<open>login\<close> performs.
\<close>

theorem register_response_carries_password_hash:
  "register env0 (world0 5000 []) body0 db_empty =
     (Responded \<lparr>status = 201, success = True, message = ''Admin registered successfully'',
        data_admin = Some \<lparr>oid = 1, name = ''Al'', email = ''a@x.com'',
                            password = Some (Bcrypt 1 ''Secr3t!''), role = ''admin'',
                            isActive = True, lastLogin = None\<rparr>,
        data_accessToken = Some (Jwt (AccessClaims 1 ''a@x.com'' ''admin'') ''s'' 5 905),
        cookies = [setRefreshTokenCookie env0 tokC]\<rparr>,
      \<lparr>admins = [admin0], refreshTokens = [rowC]\<rparr>)"
  by (simp add: admin_defs route_defs ex_defs eval_defs)

text \<open>
  C8, as stated, fails in two places. \<^verbatim>\<open>login\<close> compares the password before it looks
  at the active flag, so a deactivated account with a wrong password gets "Invalid
  credentials", not "Account is deactivated". And an empty email or password is refused
  with status 400 before any account is looked up, so an unknown email does not always
  give "Invalid credentials".
\<close>

theorem login_checks_credentials_first:
  "\<not> isActive (admin0\<lparr>isActive := False\<rparr>)
   \<and> login env0 (world0 7000 []) ''a@x.com'' ''wrong'' db_inactive =
       (Next (AppError ''Invalid credentials'' 401), db_inactive)
   \<and> login env0 (world0 7000 []) ''nobody@x.com'' [] db0 =
       (Next (AppError ''Email and password are required'' 400), db0)"
proof -
  have k: "\<not> bcrypt_compare ''wrong'' (Bcrypt 1 ''Secr3t!'')" by code_simp
  have "login env0 (world0 7000 []) ''a@x.com'' ''wrong'' db_inactive =
       (Next (AppError ''Invalid credentials'' 401), db_inactive)"
    using k by (simp add: login_def findOne_def db_inactive_def admin0_def toLowerCase_def
                  world0_def del: bcrypt_compare.simps)
  moreover have "login env0 (world0 7000 []) ''nobody@x.com'' [] db0 =
       (Next (AppError ''Email and password are required'' 400), db0)"
    by (simp add: login_def)
  ultimately show ?thesis by simp
qed

text \<open>
  C8, amended. \<^verbatim>\<open>login\<close> refuses an empty email or password with "Email and password
  are required" (400). Otherwise, the account lookup returning, it fails with the same
  error "Invalid credentials" (401) when no account has the email and when the password
  does not match (whatever the active flag), and with "Account is deactivated" (401) when
  the password matches and the active flag is false; none of these changes the store.
  With matching credentials on an active account, the save and the mint going through,
  it answers 200 with the account carrying the new \<^verbatim>\<open>lastLogin\<close> and no password, an
  access token, and the new refresh token in the cookie; the store is the old one with
  \<^verbatim>\<open>lastLogin\<close> of that account set to the current time and the new refresh-token row
  appended. Every run that responds is of this kind: the stored account is in the new
  store with the new \<^verbatim>\<open>lastLogin\<close>.
\<close>

theorem login_cases:
  "(em = [] \<or> pw = [] \<longrightarrow>
      login e w em pw d = (Next (AppError ''Email and password are required'' 400), d))
   \<and> (em \<noteq> [] \<and> pw \<noteq> [] \<and> \<not> fails w FindOne \<longrightarrow>
        (find (\<lambda>x. email x = toLowerCase em) (admins d) = None \<longrightarrow>
           login e w em pw d = (Next (AppError ''Invalid credentials'' 401), d))
      \<and> (\<forall>a h. find (\<lambda>x. email x = toLowerCase em) (admins d) = Some a \<and> password a = Some h
             \<and> \<not> bcrypt_compare pw h \<longrightarrow>
           login e w em pw d = (Next (AppError ''Invalid credentials'' 401), d))
      \<and> (\<forall>a h. find (\<lambda>x. email x = toLowerCase em) (admins d) = Some a \<and> password a = Some h
             \<and> bcrypt_compare pw h \<and> \<not> isActive a \<longrightarrow>
           login e w em pw d = (Next (AppError ''Account is deactivated'' 401), d))
      \<and> (\<forall>a h ex. find (\<lambda>x. email x = toLowerCase em) (admins d) = Some a \<and> password a = Some h
             \<and> bcrypt_compare pw h \<and> isActive a
             \<and> \<not> fails w Save \<and> \<not> fails w CreateToken
             \<and> signRefreshToken e w a \<notin> set (map token (refreshTokens d))
             \<and> newDate (map_option (\<lambda>n. now w + n * 1000)
                   (expiresInSeconds (JWT_REFRESH_EXPIRE e))) = Some ex \<longrightarrow>
           login e w em pw d =
             (Responded \<lparr>status = 200, success = True, message = ''Login successful'',
                 data_admin = Some (a\<lparr>lastLogin := Some (now w), password := None\<rparr>),
                 data_accessToken = Some (generateAccessToken e w a),
                 cookies = [setRefreshTokenCookie e (signRefreshToken e w a)]\<rparr>,
              d\<lparr>admins := updateMany (\<lambda>x. oid x = oid a)
                              (\<lambda>x. x\<lparr>lastLogin := Some (now w)\<rparr>) (admins d),
                refreshTokens := refreshTokens d @
                  [\<lparr>token = signRefreshToken e w a, user = oid a, expiresAt = ex,
                    isRevoked = False\<rparr>]\<rparr>)))
   \<and> (\<forall>resp d'. login e w em pw d = (Responded resp, d') \<longrightarrow>
        (\<exists>a h. find (\<lambda>x. email x = toLowerCase em) (admins d) = Some a
           \<and> password a = Some h \<and> bcrypt_compare pw h \<and> isActive a
           \<and> resp = \<lparr>status = 200, success = True, message = ''Login successful'',
                      data_admin = Some (a\<lparr>lastLogin := Some (now w), password := None\<rparr>),
                      data_accessToken = Some (generateAccessToken e w a),
                      cookies = [setRefreshTokenCookie e (signRefreshToken e w a)]\<rparr>
           \<and> admins d' = updateMany (\<lambda>x. oid x = oid a)
                            (\<lambda>x. x\<lparr>lastLogin := Some (now w)\<rparr>) (admins d)
           \<and> a\<lparr>lastLogin := Some (now w)\<rparr> \<in> set (admins d')
           \<and> (\<exists>doc. token doc = signRefreshToken e w a \<and> user doc = oid a \<and> \<not> isRevoked doc
                 \<and> refreshTokens d' = refreshTokens d @ [doc])))"
proof (intro conjI allI impI)
  assume "em = [] \<or> pw = []"
  then show "login e w em pw d = (Next (AppError ''Email and password are required'' 400), d)"
    by (auto simp: login_def)
next
  assume "em \<noteq> [] \<and> pw \<noteq> [] \<and> \<not> fails w FindOne"
    and "find (\<lambda>x. email x = toLowerCase em) (admins d) = None"
  then show "login e w em pw d = (Next (AppError ''Invalid credentials'' 401), d)"
    by (simp add: login_def findOne_def)
next
  fix a h
  assume "em \<noteq> [] \<and> pw \<noteq> [] \<and> \<not> fails w FindOne"
    and "find (\<lambda>x. email x = toLowerCase em) (admins d) = Some a \<and> password a = Some h
             \<and> \<not> bcrypt_compare pw h"
  then show "login e w em pw d = (Next (AppError ''Invalid credentials'' 401), d)"
    by (simp add: login_def findOne_def)
next
  fix a h
  assume "em \<noteq> [] \<and> pw \<noteq> [] \<and> \<not> fails w FindOne"
    and "find (\<lambda>x. email x = toLowerCase em) (admins d) = Some a \<and> password a = Some h
             \<and> bcrypt_compare pw h \<and> \<not> isActive a"
  then show "login e w em pw d = (Next (AppError ''Account is deactivated'' 401), d)"
    by (simp add: login_def findOne_def)
next
  fix a h ex
  assume 1: "em \<noteq> [] \<and> pw \<noteq> [] \<and> \<not> fails w FindOne"
    and 2: "find (\<lambda>x. email x = toLowerCase em) (admins d) = Some a \<and> password a = Some h
             \<and> bcrypt_compare pw h \<and> isActive a
             \<and> \<not> fails w Save \<and> \<not> fails w CreateToken
             \<and> signRefreshToken e w a \<notin> set (map token (refreshTokens d))
             \<and> newDate (map_option (\<lambda>n. now w + n * 1000)
                   (expiresInSeconds (JWT_REFRESH_EXPIRE e))) = Some ex"
  then show "login e w em pw d =
             (Responded \<lparr>status = 200, success = True, message = ''Login successful'',
                 data_admin = Some (a\<lparr>lastLogin := Some (now w), password := None\<rparr>),
                 data_accessToken = Some (generateAccessToken e w a),
                 cookies = [setRefreshTokenCookie e (signRefreshToken e w a)]\<rparr>,
              d\<lparr>admins := updateMany (\<lambda>x. oid x = oid a)
                              (\<lambda>x. x\<lparr>lastLogin := Some (now w)\<rparr>) (admins d),
                refreshTokens := refreshTokens d @
                  [\<lparr>token = signRefreshToken e w a, user = oid a, expiresAt = ex,
                    isRevoked = False\<rparr>]\<rparr>)"
    using login_succeeds[of em pw w d a h e ex] by blast
next
  fix resp d'
  assume r: "login e w em pw d = (Responded resp, d')"
  from login_Responded[OF r] obtain a h doc where
    a: "find (\<lambda>x. email x = toLowerCase em) (admins d) = Some a"
       "password a = Some h" "bcrypt_compare pw h" "isActive a"
       "resp = \<lparr>status = 200, success = True, message = ''Login successful'',
                      data_admin = Some (a\<lparr>lastLogin := Some (now w), password := None\<rparr>),
                      data_accessToken = Some (generateAccessToken e w a),
                      cookies = [setRefreshTokenCookie e (signRefreshToken e w a)]\<rparr>"
    and doc: "token doc = signRefreshToken e w a" "user doc = oid a" "\<not> isRevoked doc"
    and d': "d' = d\<lparr>admins := updateMany (\<lambda>x. oid x = oid a)
                                        (\<lambda>x. x\<lparr>lastLogin := Some (now w)\<rparr>) (admins d),
                          refreshTokens := refreshTokens d @ [doc]\<rparr>"
    by blast
  from find_Some_mem[OF a(1)] have mem: "a \<in> set (admins d)" by simp
  from d' have adm: "admins d' = updateMany (\<lambda>x. oid x = oid a)
                            (\<lambda>x. x\<lparr>lastLogin := Some (now w)\<rparr>) (admins d)"
    and rows: "refreshTokens d' = refreshTokens d @ [doc]" by simp_all
  have "(\<lambda>x. if oid x = oid a then x\<lparr>lastLogin := Some (now w)\<rparr> else x) a \<in>
          (\<lambda>x. if oid x = oid a then x\<lparr>lastLogin := Some (now w)\<rparr> else x) ` set (admins d)"
    using mem by (rule imageI)
  then have upd: "a\<lparr>lastLogin := Some (now w)\<rparr> \<in> set (admins d')"
    unfolding adm updateMany_def by simp
  from a adm upd doc rows
  show "\<exists>a h. find (\<lambda>x. email x = toLowerCase em) (admins d) = Some a
           \<and> password a = Some h \<and> bcrypt_compare pw h \<and> isActive a
           \<and> resp = \<lparr>status = 200, success = True, message = ''Login successful'',
                      data_admin = Some (a\<lparr>lastLogin := Some (now w), password := None\<rparr>),
                      data_accessToken = Some (generateAccessToken e w a),
                      cookies = [setRefreshTokenCookie e (signRefreshToken e w a)]\<rparr>
           \<and> admins d' = updateMany (\<lambda>x. oid x = oid a)
                            (\<lambda>x. x\<lparr>lastLogin := Some (now w)\<rparr>) (admins d)
           \<and> a\<lparr>lastLogin := Some (now w)\<rparr> \<in> set (admins d')
           \<and> (\<exists>doc. token doc = signRefreshToken e w a \<and> user doc = oid a \<and> \<not> isRevoked doc
                 \<and> refreshTokens d' = refreshTokens d @ [doc])"
    by blast
qed

text \<open>
  Witness for C8: empty password, unknown email, wrong password, deactivated account,
  successful login.
\<close>

theorem login_cases_witness:
  "login env0 (world0 7000 []) ''a@x.com'' [] db0 =
       (Next (AppError ''Email and password are required'' 400), db0)
   \<and> login env0 (world0 7000 []) ''b@x.com'' ''Secr3t!'' db0 =
       (Next (AppError ''Invalid credentials'' 401), db0)
   \<and> login env0 (world0 7000 []) ''a@x.com'' ''wrong'' db0 =
       (Next (AppError ''Invalid credentials'' 401), db0)
   \<and> login env0 (world0 7000 []) ''a@x.com'' ''Secr3t!'' db_inactive =
       (Next (AppError ''Account is deactivated'' 401), db_inactive)
   \<and> login env0 (world0 7000 []) ''a@x.com'' ''Secr3t!'' db0 =
       (Responded \<lparr>status = 200, success = True, message = ''Login successful'',
          data_admin = Some (admin0\<lparr>lastLogin := Some 7000, password := None\<rparr>),
          data_accessToken = Some (Jwt (AccessClaims 1 ''a@x.com'' ''admin'') ''s'' 7 907),
          cookies = [setRefreshTokenCookie env0 (Jwt (RefreshClaims 1) ''r'' 7 604807)]\<rparr>,
        \<lparr>admins = [admin0\<lparr>lastLogin := Some 7000\<rparr>],
         refreshTokens = [\<lparr>token = Jwt (RefreshClaims 1) ''r'' 7 604807, user = 1,
                           expiresAt = 604807000, isRevoked = False\<rparr>]\<rparr>)"
proof -
  let ?w = "world0 7000 []"
  have ne: "''b@x.com'' \<noteq> [] \<and> ''Secr3t!'' \<noteq> [] \<and> \<not> fails ?w FindOne"
           "''a@x.com'' \<noteq> [] \<and> ''wrong'' \<noteq> [] \<and> \<not> fails ?w FindOne"
           "''a@x.com'' \<noteq> [] \<and> ''Secr3t!'' \<noteq> [] \<and> \<not> fails ?w FindOne"
    by (simp_all add: world0_def)
  have unknown: "find (\<lambda>x. email x = toLowerCase ''b@x.com'') (admins db0) = None"
    by (simp add: db0_def admin0_def toLowerCase_def)
  have known: "find (\<lambda>x. email x = toLowerCase ''a@x.com'') (admins db0) = Some admin0"
    by (simp add: db0_def admin0_def toLowerCase_def)
  have known': "find (\<lambda>x. email x = toLowerCase ''a@x.com'') (admins db_inactive)
                  = Some (admin0\<lparr>isActive := False\<rparr>)"
    by (simp add: db_inactive_def admin0_def toLowerCase_def)
  have pw: "password admin0 = Some (Bcrypt 1 ''Secr3t!'')"
       "password (admin0\<lparr>isActive := False\<rparr>) = Some (Bcrypt 1 ''Secr3t!'')"
       "\<not> isActive (admin0\<lparr>isActive := False\<rparr>)" "isActive admin0"
       "bcrypt_compare ''Secr3t!'' (Bcrypt 1 ''Secr3t!'')"
    by (simp_all add: admin0_def)
  have wrong: "\<not> bcrypt_compare ''wrong'' (Bcrypt 1 ''Secr3t!'')" by code_simp
  have st: "\<not> fails ?w Save" "\<not> fails ?w CreateToken" by (simp_all add: world0_def)
  have mint: "signRefreshToken env0 ?w admin0 \<notin> set (map token (refreshTokens db0))"
    "newDate (map_option (\<lambda>n. now ?w + n * 1000) (expiresInSeconds (JWT_REFRESH_EXPIRE env0)))
       = Some 604807000"
    by (simp_all add: eval_defs)
  have 0: "login env0 ?w ''a@x.com'' [] db0 =
       (Next (AppError ''Email and password are required'' 400), db0)"
    using login_cases [where em = "''a@x.com''" and pw = "[]" and e = env0 and w = ?w and d = db0]
    by blast
  have 1: "login env0 ?w ''b@x.com'' ''Secr3t!'' db0 =
       (Next (AppError ''Invalid credentials'' 401), db0)"
    using login_cases [where em = "''b@x.com''" and pw = "''Secr3t!''" and e = env0 and w = ?w
             and d = db0] ne(1) unknown by blast
  have 2: "login env0 ?w ''a@x.com'' ''wrong'' db0 =
       (Next (AppError ''Invalid credentials'' 401), db0)"
    using login_cases [where em = "''a@x.com''" and pw = "''wrong''" and e = env0 and w = ?w
             and d = db0] ne(2) known pw(1) wrong by blast
  have 3: "login env0 ?w ''a@x.com'' ''Secr3t!'' db_inactive =
       (Next (AppError ''Account is deactivated'' 401), db_inactive)"
    using login_cases [where em = "''a@x.com''" and pw = "''Secr3t!''" and e = env0 and w = ?w
             and d = db_inactive] ne(3) known' pw(2,3,5) by blast
  have "login env0 ?w ''a@x.com'' ''Secr3t!'' db0 =
       (Responded \<lparr>status = 200, success = True, message = ''Login successful'',
          data_admin = Some (admin0\<lparr>lastLogin := Some (now ?w), password := None\<rparr>),
          data_accessToken = Some (generateAccessToken env0 ?w admin0),
          cookies = [setRefreshTokenCookie env0 (signRefreshToken env0 ?w admin0)]\<rparr>,
        db0\<lparr>admins := updateMany (\<lambda>x. oid x = oid admin0)
                              (\<lambda>x. x\<lparr>lastLogin := Some (now ?w)\<rparr>) (admins db0),
            refreshTokens := refreshTokens db0 @
               [\<lparr>token = signRefreshToken env0 ?w admin0, user = oid admin0,
                 expiresAt = 604807000, isRevoked = False\<rparr>]\<rparr>)"
    using login_cases [where em = "''a@x.com''" and pw = "''Secr3t!''" and e = env0 and w = ?w
             and d = db0] ne(3) known pw(1,4,5) st mint by blast
  then have 4: "login env0 ?w ''a@x.com'' ''Secr3t!'' db0 =
       (Responded \<lparr>status = 200, success = True, message = ''Login successful'',
          data_admin = Some (admin0\<lparr>lastLogin := Some 7000, password := None\<rparr>),
          data_accessToken = Some (Jwt (AccessClaims 1 ''a@x.com'' ''admin'') ''s'' 7 907),
          cookies = [setRefreshTokenCookie env0 (Jwt (RefreshClaims 1) ''r'' 7 604807)]\<rparr>,
        \<lparr>admins = [admin0\<lparr>lastLogin := Some 7000\<rparr>],
         refreshTokens = [\<lparr>token = Jwt (RefreshClaims 1) ''r'' 7 604807, user = 1,
                           expiresAt = 604807000, isRevoked = False\<rparr>]\<rparr>)"
    by (simp add: updateMany_def eval_defs)
  from 0 1 2 3 4 show ?thesis by blast
qed



text \<open>
  C10, as stated, fails when the refresh call comes in the clock second in which a
  token of the account was minted: the signed token value is a function of account id,
  secret and clock second, so the new value is already in the ledger, the insert hits
  the unique index, and the call fails after it has consumed the presented token. Here
  the deactivated account presents \<open>tokA\<close>, minted in second 0, at 500 ms; no store call
  fails.
\<close>

theorem refresh_in_the_second_of_the_mint:
  "\<not> isActive (admin0\<lparr>isActive := False\<rparr>)
   \<and> rowA \<in> set (refreshTokens db_inactive) \<and> active 500 rowA \<and> user rowA = oid admin0
   \<and> refreshRoute env0 (world0 500 []) (Some tokA) db_inactive =
       (Next DuplicateKey,
        db_inactive\<lparr>refreshTokens := [rowA\<lparr>isRevoked := True\<rparr>, rowB]\<rparr>)"
  by (simp add: active_def db_inactive_def route_defs ex_defs eval_defs)

text \<open>
  C10, amended. The refresh route never looks at the account's \<^verbatim>\<open>isActive\<close> flag. Let a
  deactivated account hold an unrevoked, unexpired refresh token (token values being
  unique in the ledger), let the store calls of the route return, let the configured
  lifetime give a valid expiry date, and let the freshly signed token value not be in the
  ledger yet. Then the refresh call answers 200 with a fresh access token for the account
  and a fresh refresh token in the cookie; in the store exactly the presented row has been
  revoked and the new token's unrevoked row has been appended; whereas
  \<^verbatim>\<open>login\<close> with correct credentials for the same account is refused with "Account is
  deactivated" (401).
\<close>

theorem refresh_ignores_active_flag:
  assumes row: "r \<in> set (refreshTokens d)" "\<not> isRevoked r" "now w < expiresAt r"
               "truthy (Some (token r))" "distinct (map token (refreshTokens d))"
    and acct: "find (\<lambda>x. oid x = user r) (admins d) = Some a" "\<not> isActive a"
    and store: "\<not> fails w FindValidToken" "\<not> fails w FindOneAndUpdate" "\<not> fails w CreateToken"
    and mint: "signRefreshToken e w a \<notin> set (map token (refreshTokens d))"
              "newDate (map_option (\<lambda>n. now w + n * 1000)
                  (expiresInSeconds (JWT_REFRESH_EXPIRE e))) = Some ex"
  shows "refreshRoute e w (Some (token r)) d =
            (Responded \<lparr>status = 200, success = True, message = ''Token refreshed successfully'',
               data_admin = None,
               data_accessToken = Some (generateAccessToken e w a),
               cookies = [setRefreshTokenCookie e (signRefreshToken e w a)]\<rparr>,
             d\<lparr>refreshTokens :=
                 map (\<lambda>x. if token x = token r then x\<lparr>isRevoked := True\<rparr> else x)
                   (refreshTokens d)
                 @ [\<lparr>token = signRefreshToken e w a, user = oid a, expiresAt = ex,
                     isRevoked = False\<rparr>]\<rparr>)
     \<and> (\<forall>em pw h. em \<noteq> [] \<and> pw \<noteq> [] \<and> \<not> fails w FindOne
           \<and> find (\<lambda>x. email x = toLowerCase em) (admins d) = Some a
           \<and> password a = Some h \<and> bcrypt_compare pw h \<longrightarrow>
           login e w em pw d = (Next (AppError ''Account is deactivated'' 401), d))"
proof (intro conjI allI impI)
  let ?a = "a\<lparr>password := None\<rparr>"
  have "find (\<lambda>x. token x = token r \<and> isRevoked x = False \<and> expiresAt x > now w) (refreshTokens d)
          = Some r"
    using row by (intro find_unique[where k = token]) auto
  with store(1) acct(1) row(4)
  have v: "verifyRefreshToken w (Some (token r)) d =
      Inr \<lparr>req_admin = ?a, req_refreshToken = Some (token r), req_tokenDoc = Some r\<rparr>"
    by (simp add: verifyRefreshToken_def findValidToken_def findById_def)
  let ?d1 = "d\<lparr>refreshTokens :=
                 map (\<lambda>x. if token x = token r then x\<lparr>isRevoked := True\<rparr> else x)
                   (refreshTokens d)\<rparr>"
  have c: "consumeToken w (token r) d = Inr (Some (r\<lparr>isRevoked := True\<rparr>), ?d1)"
    by (rule consumeToken_unique[OF store(2) row(5) row(1) row(2)])
  from consumeToken_tokens[OF c] mint(1)
  have fresh: "signRefreshToken e w ?a \<notin> set (map token (refreshTokens ?d1))"
    by (simp add: signRefreshToken_def)
  have ex: "newDate (map_option (\<lambda>n. now w + n * 1000)
                  (expiresInSeconds (JWT_REFRESH_EXPIRE e))) = Some ex" by (rule mint(2))
  have g: "generateRefreshToken e w ?a ?d1 =
           Inr (signRefreshToken e w ?a,
                ?d1\<lparr>refreshTokens := refreshTokens ?d1 @
                   [\<lparr>token = signRefreshToken e w ?a, user = oid ?a, expiresAt = ex, isRevoked = False\<rparr>]\<rparr>)"
    by (rule generateRefreshToken_succeeds[OF store(3) fresh ex])
  have same: "signRefreshToken e w ?a = signRefreshToken e w a"
             "generateAccessToken e w ?a = generateAccessToken e w a"
    by (simp_all add: signRefreshToken_def generateAccessToken_def)
  have "refreshToken e w \<lparr>req_admin = ?a, req_refreshToken = Some (token r), req_tokenDoc = Some r\<rparr> d
          = issueTokens e w ?a ?d1"
    using c row(2,4) by (simp add: refreshToken_def)
  also have "\<dots> = (Responded \<lparr>status = 200, success = True, message = ''Token refreshed successfully'',
               data_admin = None,
               data_accessToken = Some (generateAccessToken e w a),
               cookies = [setRefreshTokenCookie e (signRefreshToken e w a)]\<rparr>,
             ?d1\<lparr>refreshTokens := refreshTokens ?d1 @
                   [\<lparr>token = signRefreshToken e w a, user = oid a, expiresAt = ex, isRevoked = False\<rparr>]\<rparr>)"
    using g same by (simp add: issueTokens_def)
  finally have "refreshRoute e w (Some (token r)) d =
      (Responded \<lparr>status = 200, success = True, message = ''Token refreshed successfully'',
               data_admin = None,
               data_accessToken = Some (generateAccessToken e w a),
               cookies = [setRefreshTokenCookie e (signRefreshToken e w a)]\<rparr>,
             ?d1\<lparr>refreshTokens := refreshTokens ?d1 @
                   [\<lparr>token = signRefreshToken e w a, user = oid a, expiresAt = ex, isRevoked = False\<rparr>]\<rparr>)"
    using v by (simp add: refreshRoute_def)
  then show "refreshRoute e w (Some (token r)) d =
            (Responded \<lparr>status = 200, success = True, message = ''Token refreshed successfully'',
               data_admin = None,
               data_accessToken = Some (generateAccessToken e w a),
               cookies = [setRefreshTokenCookie e (signRefreshToken e w a)]\<rparr>,
             d\<lparr>refreshTokens :=
                 map (\<lambda>x. if token x = token r then x\<lparr>isRevoked := True\<rparr> else x)
                   (refreshTokens d)
                 @ [\<lparr>token = signRefreshToken e w a, user = oid a, expiresAt = ex,
                     isRevoked = False\<rparr>]\<rparr>)"
    by simp
next
  fix em pw h
  assume "em \<noteq> [] \<and> pw \<noteq> [] \<and> \<not> fails w FindOne
           \<and> find (\<lambda>x. email x = toLowerCase em) (admins d) = Some a
           \<and> password a = Some h \<and> bcrypt_compare pw h"
  with acct(2) show "login e w em pw d = (Next (AppError ''Account is deactivated'' 401), d)"
    by (simp add: login_def findOne_def)
qed

text \<open>
  Witness for C10: the deactivated \<open>admin0\<close> refreshes with \<open>tokA\<close> and cannot log in.
\<close>

theorem refresh_ignores_active_flag_witness:
  "rowA \<in> set (refreshTokens db_inactive) \<and> \<not> isRevoked rowA \<and> now (world0 5000 []) < expiresAt rowA
   \<and> \<not> isActive (admin0\<lparr>isActive := False\<rparr>)
   \<and> refreshRoute env0 (world0 5000 []) (Some tokA) db_inactive =
        (Responded \<lparr>status = 200, success = True, message = ''Token refreshed successfully'',
           data_admin = None,
           data_accessToken = Some (Jwt (AccessClaims 1 ''a@x.com'' ''admin'') ''s'' 5 905),
           cookies = [setRefreshTokenCookie env0 tokC]\<rparr>,
         db_inactive\<lparr>refreshTokens := [rowA\<lparr>isRevoked := True\<rparr>, rowB, rowC]\<rparr>)
   \<and> login env0 (world0 5000 []) ''a@x.com'' ''Secr3t!'' db_inactive =
        (Next (AppError ''Account is deactivated'' 401), db_inactive)"
proof -
  let ?w = "world0 5000 []" and ?a = "admin0\<lparr>isActive := False\<rparr>"
  have row: "rowA \<in> set (refreshTokens db_inactive)" "\<not> isRevoked rowA" "now ?w < expiresAt rowA"
    "truthy (Some (token rowA))" "distinct (map token (refreshTokens db_inactive))"
    by (simp_all add: ex_defs db_inactive_def world0_def)
  have acct: "find (\<lambda>x. oid x = user rowA) (admins db_inactive) = Some ?a" "\<not> isActive ?a"
    by (simp_all add: ex_defs db_inactive_def admin0_def)
  have store: "\<not> fails ?w FindValidToken" "\<not> fails ?w FindOneAndUpdate" "\<not> fails ?w CreateToken"
    "\<not> fails ?w FindOne"
    by (simp_all add: world0_def)
  have mint: "signRefreshToken env0 ?w ?a \<notin> set (map token (refreshTokens db_inactive))"
    "newDate (map_option (\<lambda>n. now ?w + n * 1000) (expiresInSeconds (JWT_REFRESH_EXPIRE env0)))
       = Some 604805000"
    by (simp_all add: ex_defs db_inactive_def eval_defs)
  have vals: "signRefreshToken env0 ?w ?a = tokC"
    "generateAccessToken env0 ?w ?a = Jwt (AccessClaims 1 ''a@x.com'' ''admin'') ''s'' 5 905"
    "\<lparr>token = tokC, user = oid ?a, expiresAt = 604805000, isRevoked = False\<rparr> = rowC"
    "token rowA = tokA"
    "map (\<lambda>x. if token x = tokA then x\<lparr>isRevoked := True\<rparr> else x) (refreshTokens db_inactive)
       = [rowA\<lparr>isRevoked := True\<rparr>, rowB]"
    by (simp_all add: ex_defs db_inactive_def eval_defs)
  have cred: "''a@x.com'' \<noteq> [] \<and> ''Secr3t!'' \<noteq> [] \<and> \<not> fails ?w FindOne
      \<and> find (\<lambda>x. email x = toLowerCase ''a@x.com'') (admins db_inactive) = Some ?a
      \<and> password ?a = Some (Bcrypt 1 ''Secr3t!'') \<and> bcrypt_compare ''Secr3t!'' (Bcrypt 1 ''Secr3t!'')"
    by (simp add: db_inactive_def admin0_def toLowerCase_def world0_def)
  from refresh_ignores_active_flag [OF row acct store(1-3) mint] vals cred row acct
  show ?thesis by (simp del: bcrypt_compare.simps)
qed




end
